theory Spec2Isabelle
  imports Complex_Main "HOL-Library.Char_ord" "HOL-Library.List_Lexorder" "HOL-Library.Sublist"
begin

section \<open>Python strings\<close>

text \<open>
  Python \<open>str\<close> values are modelled as \<open>string\<close>, one \<open>char\<close> per character (code
  points below 256). White space is what \<open>str.isspace\<close> accepts among these code points;
  letters and their case are the 52 ASCII letters, so texts with letters outside ASCII are
  outside the model.
\<close>

definition is_upper :: "char \<Rightarrow> bool" where
  "is_upper c = (c \<in> set ''ABCDEFGHIJKLMNOPQRSTUVWXYZ'')"

definition is_lower :: "char \<Rightarrow> bool" where
  "is_lower c = (c \<in> set ''abcdefghijklmnopqrstuvwxyz'')"

definition is_digit :: "char \<Rightarrow> bool" where
  "is_digit c = (c \<in> set ''0123456789'')"

definition is_space :: "char \<Rightarrow> bool" where
  \<comment> \<open>\<open>str.isspace\<close>: tab, line feed, VT, FF, CR, FS, GS, RS, US, space, NEL and the
      no-break space.\<close>
  "is_space c = (c \<in> set [CHR 0x09, CHR 0x0A, CHR 0x0B, CHR 0x0C, CHR 0x0D,
                            CHR 0x1C, CHR 0x1D, CHR 0x1E, CHR 0x1F, CHR 0x20,
                            CHR 0x85, CHR 0xA0])"

definition lower_char :: "char \<Rightarrow> char" where
  "lower_char c = (if is_upper c then char_of ((of_char c :: nat) + 32) else c)"

definition upper_char :: "char \<Rightarrow> char" where
  "upper_char c = (if is_lower c then char_of ((of_char c :: nat) - 32) else c)"

definition lower :: "string \<Rightarrow> string" where
  \<comment> \<open>\<open>s.lower()\<close>\<close>
  "lower s = map lower_char s"

definition newline :: char where
  "newline = CHR 0x0A"

definition apostrophe :: char where
  "apostrophe = CHR 0x27"

fun startswith :: "string \<Rightarrow> string \<Rightarrow> bool" where
  \<comment> \<open>\<open>s.startswith(p)\<close>\<close>
  "startswith s [] = True"
| "startswith [] (p # ps) = False"
| "startswith (c # cs) (p # ps) = (c = p \<and> startswith cs ps)"

fun contains :: "string \<Rightarrow> string \<Rightarrow> bool" where
  \<comment> \<open>\<open>needle in s\<close>\<close>
  "contains [] needle = (needle = [])"
| "contains (c # cs) needle = (startswith (c # cs) needle \<or> contains cs needle)"

fun split_sep :: "char \<Rightarrow> string \<Rightarrow> string \<Rightarrow> string list" where
  \<comment> \<open>\<open>s.split(sep)\<close> for a one-character separator; \<open>cur\<close> is the segment being read.\<close>
  "split_sep sep cur [] = [cur]"
| "split_sep sep cur (c # cs) =
     (if c = sep then cur # split_sep sep [] cs else split_sep sep (cur @ [c]) cs)"

fun split_ws :: "string \<Rightarrow> string \<Rightarrow> string list" where
  \<comment> \<open>\<open>s.split()\<close>: maximal runs of characters that are not white space.\<close>
  "split_ws cur [] = (if cur = [] then [] else [cur])"
| "split_ws cur (c # cs) =
     (if is_space c then (if cur = [] then split_ws [] cs else cur # split_ws [] cs)
      else split_ws (cur @ [c]) cs)"

definition strip :: "string \<Rightarrow> string" where
  \<comment> \<open>\<open>s.strip()\<close>\<close>
  "strip s = rev (dropWhile is_space (rev (dropWhile is_space s)))"

fun title_from :: "bool \<Rightarrow> string \<Rightarrow> string" where
  \<comment> \<open>\<open>s.title()\<close>; the flag says whether the previous character was a letter.\<close>
  "title_from prev [] = []"
| "title_from prev (c # cs) =
     (if is_lower c then (if prev then c else upper_char c) # title_from True cs
      else if is_upper c then (if prev then lower_char c else c) # title_from True cs
      else c # title_from False cs)"

definition title :: "string \<Rightarrow> string" where
  "title s = title_from False s"

definition remove_char :: "char \<Rightarrow> string \<Rightarrow> string" where
  \<comment> \<open>\<open>s.replace(c, '')\<close>\<close>
  "remove_char c s = filter (\<lambda>d. d \<noteq> c) s"

fun join :: "string \<Rightarrow> string list \<Rightarrow> string" where
  \<comment> \<open>\<open>sep.join(xs)\<close>\<close>
  "join sep [] = []"
| "join sep [x] = x"
| "join sep (x # y # ys) = x @ sep @ join sep (y # ys)"

section \<open>Exemplar selection (services/few_shot.py)\<close>

text \<open>
  A loaded post is a JSON object. \<open>None\<close> stands for a key that is absent, which is what
  \<open>dict.get\<close> with a default distinguishes.
\<close>

record fs_metadata =
  fs_unified_tags :: "string list option"
  fs_language :: "string option"
  fs_line_count :: "int option"

record fs_post =
  fs_id :: string
  fs_text :: string
  fs_meta :: "fs_metadata option"

definition empty_metadata :: fs_metadata where
  \<comment> \<open>the default \<open>{}\<close> of \<open>post.get('metadata', {})\<close>\<close>
  "empty_metadata = \<lparr>fs_unified_tags = None, fs_language = None, fs_line_count = None\<rparr>"

definition get_meta :: "fs_post \<Rightarrow> fs_metadata" where
  "get_meta post = (case fs_meta post of None \<Rightarrow> empty_metadata | Some m \<Rightarrow> m)"

definition post_unified_tags :: "fs_post \<Rightarrow> string list" where
  "post_unified_tags post = (case fs_unified_tags (get_meta post) of None \<Rightarrow> [] | Some ts \<Rightarrow> ts)"

definition post_language :: "fs_post \<Rightarrow> string" where
  "post_language post = (case fs_language (get_meta post) of None \<Rightarrow> ''English'' | Some l \<Rightarrow> l)"

definition post_line_count :: "fs_post \<Rightarrow> int" where
  "post_line_count post = (case fs_line_count (get_meta post) of None \<Rightarrow> 0 | Some n \<Rightarrow> n)"

definition tag_matches :: "string \<Rightarrow> fs_post \<Rightarrow> bool" where
  "tag_matches tag post = (lower tag \<in> set (map lower (post_unified_tags post)))"

definition language_matches :: "string \<Rightarrow> fs_post \<Rightarrow> bool" where
  "language_matches language post = (lower (post_language post) = lower language)"

definition length_matches :: "string \<Rightarrow> int \<Rightarrow> bool" where
  "length_matches length_category line_count =
     (if length_category = ''Short'' \<and> 1 \<le> line_count \<and> line_count \<le> 5 then True
      else if length_category = ''Medium'' \<and> 6 \<le> line_count \<and> line_count \<le> 10 then True
      else if length_category = ''Long'' \<and> 11 \<le> line_count \<and> line_count \<le> 15 then True
      else False)"

definition post_matches :: "string \<Rightarrow> string \<Rightarrow> string \<Rightarrow> fs_post \<Rightarrow> bool" where
  "post_matches length_category language tag post =
     (tag_matches tag post \<and> language_matches language post
      \<and> length_matches length_category (post_line_count post))"

text \<open>
  The loop of \<open>get_filtered_posts\<close>: \<open>filtered\<close> is the accumulator; the test
  \<open>len(filtered) >= max_examples\<close> runs after each append and leaves the loop.
\<close>

fun filter_loop :: "string \<Rightarrow> string \<Rightarrow> string \<Rightarrow> int \<Rightarrow> fs_post list \<Rightarrow> fs_post list
                    \<Rightarrow> fs_post list" where
  "filter_loop length_category language tag max_examples filtered [] = filtered"
| "filter_loop length_category language tag max_examples filtered (post # posts) =
     (if post_matches length_category language tag post
      then (let filtered' = filtered @ [post]
            in if int (length filtered') \<ge> max_examples then filtered'
               else filter_loop length_category language tag max_examples filtered' posts)
      else filter_loop length_category language tag max_examples filtered posts)"

definition get_filtered_posts :: "fs_post list \<Rightarrow> string \<Rightarrow> string \<Rightarrow> string \<Rightarrow> int \<Rightarrow> fs_post list" where
  "get_filtered_posts posts length_category language tag max_examples =
     filter_loop length_category language tag max_examples [] posts"

definition startup_post :: fs_post where
  "startup_post = \<lparr>fs_id = ''p1'', fs_text = ''Line1'',
     fs_meta = Some \<lparr>fs_unified_tags = Some [''Startup''], fs_language = Some ''English'',
                     fs_line_count = Some 3\<rparr>\<rparr>"


definition unmeasured_post :: fs_post where
  \<comment> \<open>the same post without the key \<open>line_count\<close>\<close>
  "unmeasured_post = \<lparr>fs_id = ''p2'', fs_text = ''Line1'',
     fs_meta = Some \<lparr>fs_unified_tags = Some [''Startup''], fs_language = Some ''English'',
                     fs_line_count = None\<rparr>\<rparr>"

definition overlong_post :: fs_post where
  "overlong_post = \<lparr>fs_id = ''p3'', fs_text = ''Line1'',
     fs_meta = Some \<lparr>fs_unified_tags = Some [''Startup''], fs_language = Some ''English'',
                     fs_line_count = Some 16\<rparr>\<rparr>"

section \<open>Posts (schemas/post.py)\<close>

record PostMetadata =
  meta_topic :: "string option"
  meta_tone :: "string option"
  meta_post_type :: "string option"
  meta_word_count :: "int option"
  meta_estimated_engagement :: "string option"
  meta_target_audience :: "string option"
  meta_best_posting_time :: "string option"
  meta_hashtags :: "string list"
  meta_structure :: "string option"
  meta_engagement_drivers :: "string list"
  meta_quality_score :: "real option"
  meta_virality_potential :: "string option"
  meta_emotional_tone :: "string option"
  meta_call_to_action :: "string option"
  meta_line_count :: "int option"
  meta_language :: "string option"
  meta_unified_tags :: "string list"

definition default_metadata :: PostMetadata where
  \<comment> \<open>\<open>PostMetadata()\<close>\<close>
  "default_metadata = \<lparr>meta_topic = None, meta_tone = None, meta_post_type = None,
     meta_word_count = None, meta_estimated_engagement = None, meta_target_audience = None,
     meta_best_posting_time = None, meta_hashtags = [], meta_structure = None,
     meta_engagement_drivers = [], meta_quality_score = None, meta_virality_potential = None,
     meta_emotional_tone = None, meta_call_to_action = None, meta_line_count = None,
     meta_language = None, meta_unified_tags = []\<rparr>"

record PostEngagement =
  likes :: int
  comments :: int
  shares :: int
  views :: "int option"

definition default_engagement :: PostEngagement where
  "default_engagement = \<lparr>likes = 0, comments = 0, shares = 0, views = None\<rparr>"

definition total_engagement :: "PostEngagement \<Rightarrow> int" where
  "total_engagement e = likes e + comments e + shares e"

record Post =
  post_id :: string
  post_text :: string
  metadata :: PostMetadata
  engagement :: PostEngagement
  created_at :: "string option"

definition count_lines :: "string \<Rightarrow> int" where
  \<comment> \<open>\<open>len(text.split('\n'))\<close>\<close>
  "count_lines s = int (length (split_sep newline [] s))"

definition count_words :: "string \<Rightarrow> int" where
  \<comment> \<open>\<open>len(text.split())\<close>\<close>
  "count_words s = int (length (split_ws [] s))"

definition post_init :: "string \<Rightarrow> Post \<Rightarrow> Post" where
  \<comment> \<open>\<open>__post_init__\<close>; \<open>now\<close> is what \<open>datetime.now()\<close> returns.\<close>
  "post_init now self =
     (let self = (if created_at self = None then self\<lparr>created_at := Some now\<rparr> else self);
          self = (if meta_line_count (metadata self) = None
                  then self\<lparr>metadata := (metadata self)\<lparr>meta_line_count :=
                         Some (count_lines (post_text self))\<rparr>\<rparr>
                  else self);
          self = (if meta_word_count (metadata self) = None
                  then self\<lparr>metadata := (metadata self)\<lparr>meta_word_count :=
                         Some (count_words (post_text self))\<rparr>\<rparr>
                  else self)
      in self)"

definition line_count :: "Post \<Rightarrow> int" where
  \<comment> \<open>\<open>self.metadata.line_count or len(self.text.split('\n'))\<close>: \<open>None\<close> and 0 are falsy.\<close>
  "line_count self =
     (case meta_line_count (metadata self) of
        Some n \<Rightarrow> if n \<noteq> 0 then n else count_lines (post_text self)
      | None \<Rightarrow> count_lines (post_text self))"

definition word_count :: "Post \<Rightarrow> int" where
  "word_count self =
     (case meta_word_count (metadata self) of
        Some n \<Rightarrow> if n \<noteq> 0 then n else count_words (post_text self)
      | None \<Rightarrow> count_words (post_text self))"

definition hashtag_count :: "Post \<Rightarrow> int" where
  "hashtag_count self = int (length (meta_hashtags (metadata self)))"

definition has_question :: "Post \<Rightarrow> bool" where
  "has_question self = contains (post_text self) ''?''"

definition has_exclamation :: "Post \<Rightarrow> bool" where
  "has_exclamation self = contains (post_text self) ''!''"

definition length_category :: "Post \<Rightarrow> string" where
  "length_category self =
     (if line_count self < 5 then ''Short''
      else if 5 \<le> line_count self \<and> line_count self \<le> 10 then ''Medium''
      else ''Long'')"

section \<open>Validation and scoring (utils/validators.py)\<close>

datatype validation_error = ValidationError string

definition validate_post_text :: "string \<Rightarrow> validation_error + bool" where
  "validate_post_text txt =
     (if txt = [] \<or> strip txt = [] then Inl (ValidationError ''Post text cannot be empty'')
      else if length (strip txt) < 10
        then Inl (ValidationError ''Post text must be at least 10 characters long'')
      else if length txt > 3000
        then Inl (ValidationError ''Post text cannot exceed 3000 characters'')
      else (let hashtag_count = count_list txt (CHR ''#'')
            in if hashtag_count > 10
               then Inl (ValidationError ''Post cannot have more than 10 hashtags'')
               else Inr True))"

definition is_word_char :: "char \<Rightarrow> bool" where
  \<comment> \<open>the class \<open>[a-zA-Z0-9_]\<close>\<close>
  "is_word_char c = (is_lower c \<or> is_upper c \<or> is_digit c \<or> c = CHR ''_'')"

definition re_match_hashtag :: "string \<Rightarrow> bool" where
  \<comment> \<open>\<open>re.match(r'^#[a-zA-Z0-9_]+$', s)\<close>. Python's \<open>$\<close> matches at the end of the string
      and also just before a line feed that ends the string.\<close>
  "re_match_hashtag s =
     (case s of
        [] \<Rightarrow> False
      | c # rest \<Rightarrow>
          c = CHR ''#'' \<and> takeWhile is_word_char rest \<noteq> []
          \<and> (dropWhile is_word_char rest = [] \<or> dropWhile is_word_char rest = [newline]))"

definition quoted :: "string \<Rightarrow> string" where
  "quoted s = [apostrophe] @ s @ [apostrophe]"

fun validate_hashtags :: "string list \<Rightarrow> validation_error + bool" where
  "validate_hashtags [] = Inr True"
| "validate_hashtags (hashtag # hashtags) =
     (if \<not> startswith hashtag ''#''
        then Inl (ValidationError (''Hashtag '' @ quoted hashtag @ '' must start with #''))
      else if length hashtag < 2
        then Inl (ValidationError (''Hashtag '' @ quoted hashtag @ '' is too short''))
      else if length hashtag > 50
        then Inl (ValidationError (''Hashtag '' @ quoted hashtag @ '' is too long''))
      else if \<not> re_match_hashtag hashtag
        then Inl (ValidationError (''Hashtag '' @ quoted hashtag @ '' contains invalid characters''))
      else validate_hashtags hashtags)"

definition allowed_tones :: "string list" where
  "allowed_tones = [''professional'', ''casual'', ''formal'', ''friendly'', ''authoritative'',
     ''conversational'', ''inspirational'', ''educational'', ''analytical'']"

definition allowed_engagement_levels :: "string list" where
  "allowed_engagement_levels = [''low'', ''medium'', ''high'', ''very_high'']"

definition truthy_str :: "string option \<Rightarrow> bool" where
  \<comment> \<open>truth value of an \<open>Optional[str]\<close>: \<open>None\<close> and the empty string are falsy.\<close>
  "truthy_str v = (case v of None \<Rightarrow> False | Some s \<Rightarrow> s \<noteq> [])"

definition validate_post_metadata :: "PostMetadata \<Rightarrow> validation_error + bool" where
  "validate_post_metadata md =
     (if truthy_str (meta_topic md) \<and> length (the (meta_topic md)) > 100
        then Inl (ValidationError ''Topic cannot exceed 100 characters'')
      else if truthy_str (meta_tone md) \<and> the (meta_tone md) \<notin> set allowed_tones
        then Inl (ValidationError (''Invalid tone: '' @ the (meta_tone md)))
      else if truthy_str (meta_estimated_engagement md)
              \<and> the (meta_estimated_engagement md) \<notin> set allowed_engagement_levels
        then Inl (ValidationError (''Invalid engagement level: '' @ the (meta_estimated_engagement md)))
      else (case meta_quality_score md of
              None \<Rightarrow> Inr True
            | Some q \<Rightarrow>
                if q \<noteq> 0 \<and> \<not> (0 \<le> q \<and> q \<le> 10)
                then Inl (ValidationError ''Quality score must be between 0 and 10'')
                else Inr True))"

definition any_in :: "string \<Rightarrow> string list \<Rightarrow> bool" where
  \<comment> \<open>\<open>any(word in text.lower() for word in wordlist)\<close>\<close>
  "any_in txt wordlist = list_ex (\<lambda>word. contains (lower txt) word) wordlist"

definition professional_words :: "string list" where
  "professional_words =
     [''professional'', ''industry'', ''business'', ''career'', ''leadership'', ''strategy'']"

definition calculate_post_quality_score :: "Post \<Rightarrow> real" where
  "calculate_post_quality_score post =
     (let score = 0;
          score = (if 50 \<le> word_count post \<and> word_count post \<le> 300 then score + 2
                   else if (30 \<le> word_count post \<and> word_count post < 50)
                           \<or> (300 < word_count post \<and> word_count post \<le> 500) then score + 1
                   else score);
          score = (if has_question post then score + 1 else score);
          score = (if has_exclamation post then score + 1/2 else score);
          score = (if hashtag_count post > 0 then score + 1/2 else score);
          score = (if 1 \<le> hashtag_count post \<and> hashtag_count post \<le> 5 then score + 1
                   else if hashtag_count post > 5 then score + 1/2
                   else score);
          score = (if line_count post \<ge> 3 then score + 1 else score);
          score = (if contains (post_text post) [newline, newline] then score + 1 else score);
          score = (if any_in (post_text post) [''because'', ''however'', ''therefore'', ''meanwhile'']
                   then score + 1/2 else score);
          score = (if any_in (post_text post) [''think'', ''believe'', ''suggest'', ''recommend'']
                   then score + 1/2 else score);
          score = (if any_in (post_text post) [''experience'', ''learned'', ''discovered'', ''found'']
                   then score + 1/2 else score);
          score = (if any_in (post_text post) [''tips'', ''advice'', ''strategies'', ''methods'']
                   then score + 1/2 else score);
          score = (if any_in (post_text post) professional_words then score + 1 else score)
      in min score 10)"

record quality_metrics_dict =
  metric_word_count :: int
  metric_line_count :: int
  metric_hashtag_count :: int
  metric_has_question :: bool
  metric_has_exclamation :: bool
  metric_length_category :: string

record quality_report =
  is_valid :: bool
  errors :: "string list"
  warnings :: "string list"
  score :: real
  metrics :: "quality_metrics_dict option"

definition initial_report :: quality_report where
  \<comment> \<open>the dictionary \<open>quality_metrics\<close> as created; \<open>None\<close> is the empty \<open>metrics\<close>.\<close>
  "initial_report = \<lparr>is_valid = True, errors = [], warnings = [], score = 0, metrics = None\<rparr>"

definition on_validation_error :: "quality_report \<Rightarrow> validation_error \<Rightarrow> quality_report" where
  \<comment> \<open>the \<open>except ValidationError as e\<close> clause\<close>
  "on_validation_error quality_metrics e =
     (case e of ValidationError msg \<Rightarrow>
        quality_metrics\<lparr>is_valid := False, errors := errors quality_metrics @ [msg]\<rparr>)"

definition add_warning :: "bool \<Rightarrow> string \<Rightarrow> quality_report \<Rightarrow> quality_report" where
  "add_warning cond msg quality_metrics =
     (if cond then quality_metrics\<lparr>warnings := warnings quality_metrics @ [msg]\<rparr>
      else quality_metrics)"

definition validate_post_quality :: "Post \<Rightarrow> validation_error + quality_report" where
  \<comment> \<open>\<open>Inl\<close> would be a \<open>ValidationError\<close> that leaves the function.\<close>
  "validate_post_quality post =
     (let quality_metrics = initial_report in
      case validate_post_text (post_text post) of
        Inl e \<Rightarrow> Inr (on_validation_error quality_metrics e)
      | Inr _ \<Rightarrow>
      (case (if meta_hashtags (metadata post) \<noteq> []
             then validate_hashtags (meta_hashtags (metadata post)) else Inr True) of
        Inl e \<Rightarrow> Inr (on_validation_error quality_metrics e)
      | Inr _ \<Rightarrow>
      (case validate_post_metadata (metadata post) of
        Inl e \<Rightarrow> Inr (on_validation_error quality_metrics e)
      | Inr _ \<Rightarrow>
        (let quality_metrics = quality_metrics\<lparr>score := calculate_post_quality_score post\<rparr>;
             quality_metrics = quality_metrics\<lparr>metrics := Some
               \<lparr>metric_word_count = word_count post, metric_line_count = line_count post,
                metric_hashtag_count = hashtag_count post,
                metric_has_question = has_question post,
                metric_has_exclamation = has_exclamation post,
                metric_length_category = length_category post\<rparr>\<rparr>;
             quality_metrics = add_warning (word_count post < 50)
               ''Post is quite short - consider adding more content'' quality_metrics;
             quality_metrics = add_warning (hashtag_count post = 0)
               ''No hashtags found - consider adding relevant hashtags'' quality_metrics;
             quality_metrics = add_warning (\<not> has_question post \<and> \<not> has_exclamation post)
               ''Post lacks engagement elements - consider adding questions or exclamations''
               quality_metrics;
             quality_metrics = add_warning (word_count post > 500)
               ''Post is quite long - consider breaking it into multiple posts'' quality_metrics
         in Inr quality_metrics))))"


section \<open>The scoring table of the specification\<close>

text \<open>
  The additive signal table, written after the specification: one term per row, each worth
  its points when its condition holds, the sum capped at 10. A text contains a mark or a
  keyword when that is a contiguous sublist of it (\<open>sublist\<close> of the library); for a
  keyword the case of the letters is ignored, by folding the keyword and the text with the
  table of the 26 letters. The word and line counts are those of the document; the hashtags
  counted are the entries of the document's hashtag list.
\<close>

definition signal_points :: "bool \<Rightarrow> real \<Rightarrow> real" where
  "signal_points cond pts = (if cond then pts else 0)"

definition case_table :: "(char \<times> char) list" where
  "case_table = zip ''ABCDEFGHIJKLMNOPQRSTUVWXYZ'' ''abcdefghijklmnopqrstuvwxyz''"

definition fold_case :: "char \<Rightarrow> char" where
  "fold_case c = (case map_of case_table c of Some d \<Rightarrow> d | None \<Rightarrow> c)"

definition occurs_ignoring_case :: "string \<Rightarrow> string \<Rightarrow> bool" where
  "occurs_ignoring_case keyword s = sublist (map fold_case keyword) (map fold_case s)"

definition has_keyword :: "string list \<Rightarrow> string \<Rightarrow> bool" where
  "has_keyword family s = list_ex (\<lambda>keyword. occurs_ignoring_case keyword s) family"

definition logical_connectors :: "string list" where
  "logical_connectors = [''because'', ''however'', ''therefore'', ''meanwhile'']"

definition insight_markers :: "string list" where
  "insight_markers = [''think'', ''believe'', ''suggest'', ''recommend'']"

definition experience_markers :: "string list" where
  "experience_markers = [''experience'', ''learned'', ''discovered'', ''found'']"

definition actionable_markers :: "string list" where
  "actionable_markers = [''tips'', ''advice'', ''strategies'', ''methods'']"

definition professional_tone_words :: "string list" where
  "professional_tone_words =
     [''professional'', ''industry'', ''business'', ''career'', ''leadership'', ''strategy'']"

definition all_keywords :: "string list" where
  "all_keywords = logical_connectors @ insight_markers @ experience_markers
                  @ actionable_markers @ professional_tone_words"

definition hashtags_listed :: "Post \<Rightarrow> int" where
  "hashtags_listed d = int (length (meta_hashtags (metadata d)))"

definition spec_signal_sum :: "Post \<Rightarrow> real" where
  "spec_signal_sum d =
     signal_points (50 \<le> word_count d \<and> word_count d \<le> 300) 2
   + signal_points ((30 \<le> word_count d \<and> word_count d < 50)
                    \<or> (300 < word_count d \<and> word_count d \<le> 500)) 1
   + signal_points (sublist ''?'' (post_text d)) 1
   + signal_points (sublist ''!'' (post_text d)) (1/2)
   + signal_points (1 \<le> hashtags_listed d) (1/2)
   + signal_points (1 \<le> hashtags_listed d \<and> hashtags_listed d \<le> 5) 1
   + signal_points (5 < hashtags_listed d) (1/2)
   + signal_points (3 \<le> line_count d) 1
   + signal_points (sublist [newline, newline] (post_text d)) 1
   + signal_points (has_keyword logical_connectors (post_text d)) (1/2)
   + signal_points (has_keyword insight_markers (post_text d)) (1/2)
   + signal_points (has_keyword experience_markers (post_text d)) (1/2)
   + signal_points (has_keyword actionable_markers (post_text d)) (1/2)
   + signal_points (has_keyword professional_tone_words (post_text d)) 1"

section \<open>Example documents\<close>

definition scenario_text :: string where
  "scenario_text = join [newline]
     [''we do it so it is ok to go on as we do it now'',
      ''is it ok to go on as we do it now or is it not?'',
      ''we do it so it is ok to go on as we do it now'',
      ''we do it so it is ok to go on as we do it #AI'']"

definition scenario_post :: Post where
  "scenario_post = post_init ''2025-01-01T00:00:00''
     \<lparr>post_id = ''scenario3'', post_text = scenario_text,
      metadata = default_metadata\<lparr>meta_hashtags := [''#AI'']\<rparr>,
      engagement = default_engagement, created_at = None\<rparr>"


definition scenario_document :: Post where
  \<comment> \<open>the same text built with the default metadata: its hashtag list is empty\<close>
  "scenario_document = post_init ''2025-01-01T00:00:00''
     \<lparr>post_id = ''scenario3'', post_text = scenario_text, metadata = default_metadata,
      engagement = default_engagement, created_at = None\<rparr>"

definition keyword_text :: string where
  "keyword_text = join [newline]
     [''HOWEVER I Believe'', [], ''my Experience: TIPS for your Career!'']"

definition keyword_post :: Post where
  "keyword_post = post_init ''2025-01-01T00:00:00''
     \<lparr>post_id = ''keywords'', post_text = keyword_text,
      metadata = default_metadata\<lparr>meta_hashtags :=
        [''#a'', ''#b'', ''#c'', ''#d'', ''#e'', ''#f'']\<rparr>,
      engagement = default_engagement, created_at = None\<rparr>"

definition plain_text :: string where
  "plain_text = ''Hello world, this is a post''"

definition untagged_post :: Post where
  "untagged_post = post_init ''2025-01-01T00:00:00''
     \<lparr>post_id = ''a'', post_text = plain_text, metadata = default_metadata,
      engagement = default_engagement, created_at = None\<rparr>"

definition tagged_post :: Post where
  "tagged_post = post_init ''2025-01-01T00:00:00''
     \<lparr>post_id = ''b'', post_text = plain_text,
      metadata = default_metadata\<lparr>meta_hashtags := [''#AI'']\<rparr>,
      engagement = default_engagement, created_at = None\<rparr>"

definition retagged_post :: Post where
  "retagged_post = post_init ''2025-06-30T12:00:00''
     \<lparr>post_id = ''c'', post_text = plain_text,
      metadata = default_metadata\<lparr>meta_hashtags := [''#ML''], meta_topic := Some ''Tech''\<rparr>,
      engagement = default_engagement, created_at = None\<rparr>"

definition empty_text_post :: Post where
  "empty_text_post = post_init ''2025-01-01T00:00:00''
     \<lparr>post_id = ''e'', post_text = '''', metadata = default_metadata,
      engagement = default_engagement, created_at = None\<rparr>"

definition bad_hashtag_post :: Post where
  "bad_hashtag_post = post_init ''2025-01-01T00:00:00''
     \<lparr>post_id = ''h'', post_text = plain_text,
      metadata = default_metadata\<lparr>meta_hashtags := [''#bad tag'']\<rparr>,
      engagement = default_engagement, created_at = None\<rparr>"

definition bad_tone_post :: Post where
  "bad_tone_post = post_init ''2025-01-01T00:00:00''
     \<lparr>post_id = ''t'', post_text = plain_text,
      metadata = default_metadata\<lparr>meta_tone := Some ''angry''\<rparr>,
      engagement = default_engagement, created_at = None\<rparr>"

definition failed_report :: "string \<Rightarrow> quality_report" where
  "failed_report msg =
     \<lparr>is_valid = False, errors = [msg], warnings = [], score = 0, metrics = None\<rparr>"


section \<open>Validity as the specification states it\<close>

text \<open>
  \<open>valid_as_claimed\<close> follows the words of the specification: a field is present when it is
  not \<open>None\<close>, and a hashtag matches the pattern when it is a \<open>#\<close> followed by one or more
  letters, digits or underscores and nothing else. \<open>assessed_valid\<close> is the \<open>is_valid\<close>
  field of the report the code returns.
\<close>

definition hashtag_as_claimed :: "string \<Rightarrow> bool" where
  "hashtag_as_claimed h =
     (startswith h ''#'' \<and> 2 \<le> length h \<and> length h \<le> 50
      \<and> (case h of [] \<Rightarrow> False
          | c # body \<Rightarrow> c = CHR ''#'' \<and> body \<noteq> [] \<and> list_all is_word_char body))"

definition valid_as_claimed :: "Post \<Rightarrow> bool" where
  "valid_as_claimed post =
     (strip (post_text post) \<noteq> []
      \<and> 10 \<le> length (strip (post_text post))
      \<and> length (post_text post) \<le> 3000
      \<and> count_list (post_text post) (CHR ''#'') \<le> 10
      \<and> list_all hashtag_as_claimed (meta_hashtags (metadata post))
      \<and> (case meta_topic (metadata post) of None \<Rightarrow> True | Some t \<Rightarrow> length t \<le> 100)
      \<and> (case meta_tone (metadata post) of None \<Rightarrow> True | Some t \<Rightarrow> t \<in> set allowed_tones)
      \<and> (case meta_estimated_engagement (metadata post) of
            None \<Rightarrow> True | Some e \<Rightarrow> e \<in> set allowed_engagement_levels)
      \<and> (case meta_quality_score (metadata post) of
            None \<Rightarrow> True | Some q \<Rightarrow> 0 \<le> q \<and> q \<le> 10))"

definition assessed_valid :: "Post \<Rightarrow> bool" where
  "assessed_valid post =
     (case validate_post_quality post of Inl e \<Rightarrow> False | Inr report \<Rightarrow> is_valid report)"

definition empty_tone_post :: Post where
  "empty_tone_post = post_init ''2025-01-01T00:00:00''
     \<lparr>post_id = ''n'', post_text = plain_text,
      metadata = default_metadata\<lparr>meta_tone := Some ''''\<rparr>,
      engagement = default_engagement, created_at = None\<rparr>"

definition well_formed_post :: Post where
  "well_formed_post = post_init ''2025-01-01T00:00:00''
     \<lparr>post_id = ''w'', post_text = plain_text,
      metadata = default_metadata\<lparr>meta_hashtags := [''#AI'', ''#Tech_2''],
        meta_topic := Some ''Tech'', meta_tone := Some ''casual'',
        meta_estimated_engagement := Some ''high'', meta_quality_score := Some (17/2)\<rparr>,
      engagement = default_engagement, created_at = None\<rparr>"

definition no_trailing_newline :: "string \<Rightarrow> bool" where
  "no_trailing_newline h = (h = [] \<or> last h \<noteq> newline)"

section \<open>Tag unification and enrichment (services/preprocessing_service.py)\<close>

datatype exn = OutputParserException | JSONDecodeError | KeyError string | ValueError string
  | ConnectionError string

type_synonym tag_dict = "(string \<times> string) list"

definition dict_get :: "tag_dict \<Rightarrow> string \<Rightarrow> string \<Rightarrow> string" where
  \<comment> \<open>\<open>d.get(k, default)\<close>\<close>
  "dict_get d k dflt = (case map_of d k of None \<Rightarrow> dflt | Some v \<Rightarrow> v)"

definition extract_json_from_text :: "string \<Rightarrow> string" where
  \<comment> \<open>\<open>re.search(r'\{[\s\S]*\}', text)\<close>: from the first \<open>{\<close> to the last \<open>}\<close> after it;
      the text itself when there is no such match.\<close>
  "extract_json_from_text s =
     (let from_brace = dropWhile (\<lambda>c. c \<noteq> CHR ''{'') s
      in if from_brace \<noteq> [] \<and> CHR ''}'' \<in> set (tl from_brace)
         then rev (dropWhile (\<lambda>c. c \<noteq> CHR ''}'') (rev from_brace))
         else s)"

fun fromkeys :: "'a list \<Rightarrow> 'a list \<Rightarrow> 'a list" where
  \<comment> \<open>\<open>list(dict.fromkeys(xs))\<close>, and the elements of a set built by adding \<open>xs\<close> in turn:
      \<open>keys\<close> are the keys inserted so far, in insertion order.\<close>
  "fromkeys keys [] = keys"
| "fromkeys keys (x # xs) = (if x \<in> set keys then fromkeys keys xs else fromkeys (keys @ [x]) xs)"

definition fallback_mapping :: "string list \<Rightarrow> tag_dict" where
  \<comment> \<open>\<open>{tag: tag.title() for tag in tags_list_or_set}\<close>: one entry for each key, in the
      order the keys are first met\<close>
  "fallback_mapping tags_list_or_set =
     map (\<lambda>tag. (tag, title tag)) (fromkeys [] tags_list_or_set)"

text \<open>
  The collaborator and the two JSON parsers are outside the repository and are parameters:
  \<open>get_groq_client\<close> is the outcome of building the client (it raises when no API key is
  configured), whose value is the \<open>invoke\<close> of the chain, from the sorted tag string to the
  content of the response; \<open>parse\<close> is \<open>JsonOutputParser().parse\<close> and \<open>loads\<close> is
  \<open>json.loads\<close>. A parsed response is taken to be a dictionary from strings to strings.
\<close>

definition get_unified_tags ::
  "(exn + (string \<Rightarrow> exn + string)) \<Rightarrow> (string \<Rightarrow> exn + tag_dict) \<Rightarrow> (string \<Rightarrow> exn + tag_dict)
     \<Rightarrow> string list \<Rightarrow> exn + tag_dict" where
  "get_unified_tags get_groq_client parse loads tags_list_or_set =
     (let unique_tags_str = join '','' (sort (remdups tags_list_or_set))
      in case get_groq_client of
           Inl e \<Rightarrow> Inl e
         | Inr invoke \<Rightarrow>
             (case invoke unique_tags_str of
                Inl e \<Rightarrow> Inr (fallback_mapping tags_list_or_set)
              | Inr response \<Rightarrow>
                  (case parse response of
                     Inr res \<Rightarrow> Inr res
                   | Inl OutputParserException \<Rightarrow>
                       (case loads (extract_json_from_text response) of
                          Inr res \<Rightarrow> Inr res
                        | Inl e \<Rightarrow> Inr (fallback_mapping tags_list_or_set))
                   | Inl e \<Rightarrow> Inr (fallback_mapping tags_list_or_set))))"

record json_metadata =
  md_topic :: "string option"
  md_hashtags :: "string list option"
  md_line_count :: "int option"
  md_language :: "string option"
  md_unified_tags :: "string list option"
  md_other :: "(string \<times> string) list"

definition empty_dict :: json_metadata where
  "empty_dict = \<lparr>md_topic = None, md_hashtags = None, md_line_count = None,
     md_language = None, md_unified_tags = None, md_other = []\<rparr>"

text \<open>
  A raw post is a dictionary whose \<open>metadata\<close> value is a reference to a dictionary object:
  \<open>post.copy()\<close> copies the outer dictionary only, so the copy holds the same reference.
  The store maps references to the metadata dictionaries.
\<close>

record raw_post =
  rp_id :: string
  rp_text :: "string option"
  rp_metadata :: "nat option"
  rp_engagement :: "(string \<times> int) list option"

record store =
  dicts :: "nat \<Rightarrow> json_metadata"
  fresh :: nat

definition update_dict :: "nat \<Rightarrow> (json_metadata \<Rightarrow> json_metadata) \<Rightarrow> store \<Rightarrow> store" where
  "update_dict a f s = s\<lparr>dicts := (dicts s)(a := f (dicts s a))\<rparr>"

definition collect_tags :: "json_metadata \<Rightarrow> string list" where
  \<comment> \<open>the values added to \<open>post_specific_tags_to_unify\<close>, in the order they are added\<close>
  "collect_tags md =
     (case md_topic md of None \<Rightarrow> [] | Some topic \<Rightarrow> [title (strip topic)])
     @ (case md_hashtags md of
          None \<Rightarrow> []
        | Some hashtags \<Rightarrow> map (\<lambda>ht. title (strip (remove_char (CHR ''#'') ht))) hashtags)"

text \<open>
  Python iterates a set of strings in an order fixed by the hashes of its elements, which
  change from one process to the next. \<open>set_order\<close> is that order: it maps the elements of
  the set (given in insertion order) to the sequence the iteration yields.
\<close>

definition unified_tags_of :: "(string list \<Rightarrow> string list) \<Rightarrow> tag_dict \<Rightarrow> json_metadata \<Rightarrow> string list" where
  "unified_tags_of set_order unified_tags_mapping md =
     (let post_specific_tags_to_unify = fromkeys [] (collect_tags md);
          processed_tags_for_post =
            map (\<lambda>tag. dict_get unified_tags_mapping tag tag) (set_order post_specific_tags_to_unify)
      in fromkeys [] processed_tags_for_post)"

definition default_engagement_dict :: "(string \<times> int) list" where
  "default_engagement_dict = [(''likes'', 0), (''comments'', 0), (''shares'', 0)]"

definition enrich_post ::
  "(string list \<Rightarrow> string list) \<Rightarrow> tag_dict \<Rightarrow> raw_post \<Rightarrow> store \<Rightarrow> (exn + raw_post) \<times> store" where
  "enrich_post set_order unified_tags_mapping post s =
     (let current_post = post;
          (a, current_post, s) =
            (case rp_metadata current_post of
               None \<Rightarrow> (fresh s, current_post\<lparr>rp_metadata := Some (fresh s)\<rparr>,
                        s\<lparr>dicts := (dicts s)(fresh s := empty_dict), fresh := Suc (fresh s)\<rparr>)
             | Some a \<Rightarrow> (a, current_post, s))
      in case rp_text current_post of
           None \<Rightarrow> (Inl (KeyError ''text''), s)
         | Some txt \<Rightarrow>
             (let s = update_dict a (\<lambda>m. m\<lparr>md_line_count := Some (count_lines txt)\<rparr>) s;
                  s = update_dict a (\<lambda>m. m\<lparr>md_language := Some ''English''\<rparr>) s;
                  tags = unified_tags_of set_order unified_tags_mapping (dicts s a);
                  s = update_dict a (\<lambda>m. m\<lparr>md_unified_tags := Some tags\<rparr>) s;
                  current_post =
                    (if rp_engagement current_post = None
                     then current_post\<lparr>rp_engagement := Some default_engagement_dict\<rparr>
                     else current_post)
              in (Inr current_post, s)))"

fun enrich_loop ::
  "(string list \<Rightarrow> string list) \<Rightarrow> tag_dict \<Rightarrow> raw_post list \<Rightarrow> raw_post list \<Rightarrow> store
     \<Rightarrow> (exn + raw_post list) \<times> store" where
  "enrich_loop set_order unified_tags_mapping enriched_posts [] s = (Inr enriched_posts, s)"
| "enrich_loop set_order unified_tags_mapping enriched_posts (post # original_posts) s =
     (case enrich_post set_order unified_tags_mapping post s of
        (Inl e, s') \<Rightarrow> (Inl e, s')
      | (Inr current_post, s') \<Rightarrow>
          enrich_loop set_order unified_tags_mapping (enriched_posts @ [current_post])
            original_posts s')"

definition raw_store :: store where
  "raw_store = \<lparr>dicts = (\<lambda>a. empty_dict)(0 := empty_dict\<lparr>md_topic := Some ''Startup'',
                   md_hashtags := Some [''#AI'']\<rparr>), fresh = 1\<rparr>"

definition raw_document :: raw_post where
  "raw_document = \<lparr>rp_id = ''post_001'', rp_text = Some (''Line1'' @ [newline] @ ''Line2''),
     rp_metadata = Some 0, rp_engagement = None\<rparr>"

definition empty_object_parser :: "string \<Rightarrow> exn + tag_dict" where
  \<comment> \<open>what a JSON parser does on the text \<open>{}\<close>: the empty dictionary\<close>
  "empty_object_parser s = (if s = ''{}'' then Inr [] else Inl OutputParserException)"

definition rejecting_loads :: "string \<Rightarrow> exn + tag_dict" where
  \<comment> \<open>\<open>json.loads\<close> on texts that are not JSON\<close>
  "rejecting_loads s = Inl JSONDecodeError"

definition unreachable :: "string \<Rightarrow> exn + string" where
  \<comment> \<open>a collaborator that cannot be reached: every call fails\<close>
  "unreachable prompt = Inl (ConnectionError ''unreachable'')"

definition answers_empty_object :: "string \<Rightarrow> exn + string" where
  \<comment> \<open>a collaborator that answers with the JSON text \<open>{}\<close>\<close>
  "answers_empty_object prompt = Inr ''{}''"


definition answers_with_preamble :: "string \<Rightarrow> exn + string" where
  \<comment> \<open>a collaborator that wraps the JSON text \<open>{}\<close> in a sentence\<close>
  "answers_with_preamble prompt = Inr ''Here is the mapping: {} Done.''"

definition tagged_store :: store where
  "tagged_store = \<lparr>dicts = (\<lambda>a. empty_dict)(0 := empty_dict\<lparr>md_topic := Some '' startup '',
                   md_hashtags := Some [''#AI'', ''#YCombinator'', ''#ai'']\<rparr>), fresh = 1\<rparr>"

definition sample_mapping :: tag_dict where
  "sample_mapping = [(''Ycombinator'', ''Startup''), (''Ai'', ''AI & Tech'')]"

definition no_api_key :: "exn + (string \<Rightarrow> exn + string)" where
  \<comment> \<open>\<open>get_groq_client()\<close> when \<open>GROQ_API_KEY\<close> is not set\<close>
  "no_api_key = Inl (ValueError ''GROQ_API_KEY not found in environment variables.'')"

section \<open>The resolver and the enricher as the specification states them\<close>


definition mapping_invariant :: "string list \<Rightarrow> tag_dict \<Rightarrow> bool" where
  \<comment> \<open>the domain holds every candidate; every value is non-empty and title-cased\<close>
  "mapping_invariant candidates m =
     (list_all (\<lambda>t. t \<in> set (map fst m)) candidates
      \<and> list_all (\<lambda>v. v \<noteq> [] \<and> title v = v) (map snd m))"

definition resolved_within_invariant ::
  "string list \<Rightarrow> exn + tag_dict \<Rightarrow> bool" where
  \<comment> \<open>the resolver returned a mapping, and the mapping meets the invariant\<close>
  "resolved_within_invariant candidates outcome =
     (case outcome of Inl e \<Rightarrow> False | Inr m \<Rightarrow> mapping_invariant candidates m)"

definition normalised_tags :: "json_metadata \<Rightarrow> string list" where
  \<comment> \<open>the topic (one entry), then each hashtag without its marker; each trimmed and
      title-cased\<close>
  "normalised_tags md =
     map (\<lambda>t. title (strip t))
       ((case md_topic md of None \<Rightarrow> [] | Some topic \<Rightarrow> [topic])
        @ (case md_hashtags md of
             None \<Rightarrow> []
           | Some hashtags \<Rightarrow> map (filter (\<lambda>c. c \<noteq> CHR ''#'')) hashtags))"

definition project :: "tag_dict \<Rightarrow> string \<Rightarrow> string" where
  \<comment> \<open>the mapping's value for the tag; the tag itself when the mapping has none\<close>
  "project m t = (case map_of m t of Some v \<Rightarrow> v | None \<Rightarrow> t)"

definition first_seen :: "'a list \<Rightarrow> 'a list" where
  \<comment> \<open>duplicates removed, each element kept where it first occurs\<close>
  "first_seen xs = rev (remdups (rev xs))"

definition unified_tags_as_claimed :: "tag_dict \<Rightarrow> json_metadata \<Rightarrow> string list" where
  "unified_tags_as_claimed m md = first_seen (map (project m) (normalised_tags md))"

definition unified_tags_in_set_order ::
  "(string list \<Rightarrow> string list) \<Rightarrow> tag_dict \<Rightarrow> json_metadata \<Rightarrow> string list" where
  \<comment> \<open>the normalised tags form a set; they are projected in the order the set is iterated\<close>
  "unified_tags_in_set_order set_order m md =
     first_seen (map (project m) (set_order (first_seen (normalised_tags md))))"

definition metadata_ref :: "raw_post \<Rightarrow> store \<Rightarrow> nat" where
  \<comment> \<open>where the metadata of the enriched copy lives: the dictionary of the raw post, or
      a new one when the raw post has none\<close>
  "metadata_ref post s = (case rp_metadata post of None \<Rightarrow> fresh s | Some a \<Rightarrow> a)"

definition metadata_before :: "raw_post \<Rightarrow> store \<Rightarrow> json_metadata" where
  "metadata_before post s =
     (case rp_metadata post of None \<Rightarrow> empty_dict | Some a \<Rightarrow> dicts s a)"

definition stored_unified_tags ::
  "(exn + raw_post) \<times> store \<Rightarrow> string list option" where
  \<comment> \<open>the \<open>unified_tags\<close> of the metadata of the enriched post\<close>
  "stored_unified_tags outcome =
     (case outcome of
        (Inl e, s) \<Rightarrow> None
      | (Inr p, s) \<Rightarrow> (case rp_metadata p of None \<Rightarrow> None
                       | Some a \<Rightarrow> md_unified_tags (dicts s a)))"

section \<open>Length buckets\<close>

text \<open>
  C6. A post matches the requested length bucket exactly when the line count stored in its
  metadata (0 when the metadata or the key is absent) lies in the inclusive range of that
  bucket: Short 1..5, Medium 6..10, Long 11..15. So the loop's condition holds for a post
  exactly when its tag and language match and its stored line count is in the range of the
  requested bucket. A post whose line count is absent, at most 0 or above 15 matches no
  bucket and is never selected: there is no fallback bucket.
\<close>

theorem length_bucket_ranges:
  "post_matches bucket language tag post =
     (tag_matches tag post \<and> language_matches language post
      \<and> (let n = (case fs_meta post of None \<Rightarrow> 0
                   | Some m \<Rightarrow> (case fs_line_count m of None \<Rightarrow> 0 | Some k \<Rightarrow> k))
         in (bucket = ''Short'' \<and> 1 \<le> n \<and> n \<le> 5)
            \<or> (bucket = ''Medium'' \<and> 6 \<le> n \<and> n \<le> 10)
            \<or> (bucket = ''Long'' \<and> 11 \<le> n \<and> n \<le> 15)))
   \<and> ((case fs_meta post of None \<Rightarrow> True
        | Some m \<Rightarrow> (case fs_line_count m of None \<Rightarrow> True | Some k \<Rightarrow> k \<le> 0 \<or> 15 < k))
       \<longrightarrow> \<not> post_matches bucket language tag post
           \<and> get_filtered_posts [post] bucket language tag 2 = [])"
  by (auto simp: post_matches_def length_matches_def post_line_count_def get_meta_def
      empty_metadata_def get_filtered_posts_def Let_def split: option.splits)

theorem length_bucket_ranges_witness:
  "post_matches ''Short'' ''English'' ''Startup'' startup_post
   \<and> \<not> post_matches ''Medium'' ''English'' ''Startup'' startup_post
   \<and> \<not> post_matches ''Long'' ''English'' ''Startup'' startup_post
   \<and> fs_meta unmeasured_post \<noteq> None
   \<and> fs_line_count (the (fs_meta unmeasured_post)) = None
   \<and> \<not> post_matches ''Short'' ''English'' ''Startup'' unmeasured_post
   \<and> get_filtered_posts [unmeasured_post] ''Short'' ''English'' ''Startup'' 2 = []
   \<and> \<not> post_matches ''Long'' ''English'' ''Startup'' overlong_post"
proof -
  have t: "tag_matches ''Startup'' startup_post" "language_matches ''English'' startup_post"
    by code_simp+
  have m: "fs_meta startup_post = Some \<lparr>fs_unified_tags = Some [''Startup''],
             fs_language = Some ''English'', fs_line_count = Some 3\<rparr>"
    by (simp add: startup_post_def)
  have s: "post_matches ''Short'' ''English'' ''Startup'' startup_post"
    using length_bucket_ranges [of "''Short''" "''English''" "''Startup''" startup_post] t m
    by simp
  have md: "\<not> post_matches ''Medium'' ''English'' ''Startup'' startup_post"
    using length_bucket_ranges [of "''Medium''" "''English''" "''Startup''" startup_post] m
    by simp
  have l: "\<not> post_matches ''Long'' ''English'' ''Startup'' startup_post"
    using length_bucket_ranges [of "''Long''" "''English''" "''Startup''" startup_post] m
    by simp
  have u: "fs_meta unmeasured_post = Some \<lparr>fs_unified_tags = Some [''Startup''],
             fs_language = Some ''English'', fs_line_count = None\<rparr>"
    by (simp add: unmeasured_post_def)
  have un: "\<not> post_matches ''Short'' ''English'' ''Startup'' unmeasured_post
            \<and> get_filtered_posts [unmeasured_post] ''Short'' ''English'' ''Startup'' 2 = []"
    using length_bucket_ranges [of "''Short''" "''English''" "''Startup''" unmeasured_post] u
    by simp
  have o: "fs_meta overlong_post = Some \<lparr>fs_unified_tags = Some [''Startup''],
             fs_language = Some ''English'', fs_line_count = Some 16\<rparr>"
    by (simp add: overlong_post_def)
  have ov: "\<not> post_matches ''Long'' ''English'' ''Startup'' overlong_post"
    using length_bucket_ranges [of "''Long''" "''English''" "''Startup''" overlong_post] o
    by simp
  from s md l u un ov show ?thesis by simp
qed

section \<open>First-K selection\<close>

lemma filter_loop_take:
  "int (length filtered) < max 1 max_examples \<Longrightarrow>
   filter_loop bucket language tag max_examples filtered posts =
     filtered @ take (nat (max 1 max_examples) - length filtered)
                     (filter (post_matches bucket language tag) posts)"
proof (induction posts arbitrary: filtered)
  case Nil
  then show ?case by simp
next
  case (Cons post posts)
  show ?case
  proof (cases "post_matches bucket language tag post")
    case False
    then show ?thesis using Cons by simp
  next
    case True
    from Cons.prems obtain k where k: "nat (max 1 max_examples) - length filtered = Suc k"
      by (cases "nat (max 1 max_examples) - length filtered") auto
    show ?thesis
    proof (cases "int (length (filtered @ [post])) \<ge> max_examples")
      case stop: True
      with Cons.prems have "k = 0" using k by auto
      then show ?thesis using True stop k by (simp add: Let_def)
    next
      case go: False
      then have lt: "int (length (filtered @ [post])) < max 1 max_examples" by auto
      have "nat (max 1 max_examples) - length (filtered @ [post]) = k" using k by simp
      then show ?thesis using True go k Cons.IH [OF lt] by (simp add: Let_def)
    qed
  qed
qed

lemma get_filtered_posts_first_k:
  "get_filtered_posts posts bucket language tag max_examples =
     take (nat (max 1 max_examples)) (filter (post_matches bucket language tag) posts)"
  using filter_loop_take [of "[]" max_examples bucket language tag posts]
  by (simp add: get_filtered_posts_def)

lemma get_filtered_posts_sound:
  "post \<in> set (get_filtered_posts posts bucket language tag max_examples) \<Longrightarrow>
   tag_matches tag post \<and> language_matches language post
   \<and> length_matches bucket (post_line_count post)"
  by (auto simp: get_filtered_posts_first_k post_matches_def dest: in_set_takeD)

lemma get_filtered_posts_length:
  "int (length (get_filtered_posts posts bucket language tag max_examples))
     \<le> max 1 max_examples"
  by (simp add: get_filtered_posts_first_k)

text \<open>
  C1. Every post returned by the selector satisfies the tag, language and bucket predicates,
  and at most \<open>max_examples\<close> posts are returned, for every \<open>max_examples \<ge> 0\<close>. The
  bound fails at \<open>max_examples = 0\<close>: the length test runs only after a post has been
  appended, so one matching post is returned.
\<close>

theorem get_filtered_posts_zero_returns_one:
  "get_filtered_posts [startup_post] ''Short'' ''English'' ''Startup'' 0 = [startup_post]
   \<and> \<not> int (length (get_filtered_posts [startup_post] ''Short'' ''English'' ''Startup'' 0)) \<le> 0"
  by code_simp

section \<open>Quality score\<close>

lemma startswith_prefix: "startswith s p = prefix p s"
  by (induction s p rule: startswith.induct) auto

lemma contains_sublist: "contains s w = sublist w s"
  by (induction s) (simp_all add: startswith_prefix sublist_Cons_right)

lemma fold_case_upper:
  assumes "is_upper c"
  shows "fold_case c = lower_char c"
proof -
  have a: "list_all (\<lambda>d. fold_case d = lower_char d) ''ABCDEFGHIJKLMNOPQRSTUVWXYZ''"
    by code_simp
  have "c \<in> set ''ABCDEFGHIJKLMNOPQRSTUVWXYZ''"
    using assms unfolding is_upper_def .
  with a show ?thesis unfolding list_all_iff by blast
qed

lemma fold_case_other:
  assumes "\<not> is_upper c"
  shows "fold_case c = lower_char c"
proof -
  have len: "length ''ABCDEFGHIJKLMNOPQRSTUVWXYZ'' = length ''abcdefghijklmnopqrstuvwxyz''"
    by simp
  have "c \<notin> set ''ABCDEFGHIJKLMNOPQRSTUVWXYZ''"
    using assms unfolding is_upper_def .
  then have "map_of case_table c = None"
    unfolding case_table_def by (rule iffD2 [OF map_of_zip_is_None [OF len]])
  then show ?thesis using assms by (simp add: fold_case_def lower_char_def)
qed


lemma fold_case_lower_char: "fold_case = lower_char"
  using fold_case_upper fold_case_other by blast

lemma any_in_has_keyword:
  assumes "list_all (\<lambda>k. map fold_case k = k) family"
  shows "any_in s family = has_keyword family s"
  using assms
  by (induction family)
     (simp_all add: any_in_def has_keyword_def occurs_ignoring_case_def contains_sublist
       lower_def fold_case_lower_char)

lemma keywords_folded:
  "list_all (\<lambda>k. map fold_case k = k) logical_connectors"
  "list_all (\<lambda>k. map fold_case k = k) insight_markers"
  "list_all (\<lambda>k. map fold_case k = k) experience_markers"
  "list_all (\<lambda>k. map fold_case k = k) actionable_markers"
  "list_all (\<lambda>k. map fold_case k = k) professional_tone_words"
  by code_simp+

lemma keyword_families:
  "any_in s [''because'', ''however'', ''therefore'', ''meanwhile''] =
     has_keyword logical_connectors s"
  "any_in s [''think'', ''believe'', ''suggest'', ''recommend''] =
     has_keyword insight_markers s"
  "any_in s [''experience'', ''learned'', ''discovered'', ''found''] =
     has_keyword experience_markers s"
  "any_in s [''tips'', ''advice'', ''strategies'', ''methods''] =
     has_keyword actionable_markers s"
  "any_in s professional_words = has_keyword professional_tone_words s"
proof -
  show "any_in s [''because'', ''however'', ''therefore'', ''meanwhile''] =
          has_keyword logical_connectors s"
    using any_in_has_keyword [OF keywords_folded(1), of s]
    unfolding logical_connectors_def .
  show "any_in s [''think'', ''believe'', ''suggest'', ''recommend''] =
          has_keyword insight_markers s"
    using any_in_has_keyword [OF keywords_folded(2), of s]
    unfolding insight_markers_def .
  show "any_in s [''experience'', ''learned'', ''discovered'', ''found''] =
          has_keyword experience_markers s"
    using any_in_has_keyword [OF keywords_folded(3), of s]
    unfolding experience_markers_def .
  show "any_in s [''tips'', ''advice'', ''strategies'', ''methods''] =
          has_keyword actionable_markers s"
    using any_in_has_keyword [OF keywords_folded(4), of s]
    unfolding actionable_markers_def .
  show "any_in s professional_words = has_keyword professional_tone_words s"
    using any_in_has_keyword [OF keywords_folded(5), of s]
    unfolding professional_tone_words_def professional_words_def .
qed

lemma has_keyword_all:
  "has_keyword all_keywords s =
     (has_keyword logical_connectors s \<or> has_keyword insight_markers s
      \<or> has_keyword experience_markers s \<or> has_keyword actionable_markers s
      \<or> has_keyword professional_tone_words s)"
  by (simp add: has_keyword_def all_keywords_def)

lemma add_signal: "(if c then s + x else s) = s + signal_points c x"
  by (simp add: signal_points_def)

lemma length_signal:
  "(if 50 \<le> w \<and> w \<le> 300 then s + 2
    else s + signal_points ((30 \<le> w \<and> w < 50) \<or> (300 < w \<and> w \<le> 500)) 1) =
   s + signal_points (50 \<le> w \<and> w \<le> 300) 2
     + signal_points ((30 \<le> w \<and> w < 50) \<or> (300 < w \<and> w \<le> (500::int))) 1"
  by (auto simp: signal_points_def)

lemma hashtag_signal:
  "(if 1 \<le> h \<and> h \<le> 5 then s + 1 else s + signal_points (h > 5) (1/2)) =
   s + signal_points (1 \<le> h \<and> h \<le> 5) 1 + signal_points (5 < (h::int)) (1/2)"
  by (auto simp: signal_points_def)

lemma signal_points_nonneg: "0 \<le> x \<Longrightarrow> 0 \<le> signal_points c x"
  by (simp add: signal_points_def)

lemma pos_int_iff: "(0 < (h::int)) = (1 \<le> h)"
  by auto

lemma score_is_capped_sum: "calculate_post_quality_score d = min (spec_signal_sum d) 10"
  unfolding calculate_post_quality_score_def Let_def length_signal hashtag_signal add_signal
    spec_signal_sum_def has_question_def has_exclamation_def keyword_families
    contains_sublist hashtag_count_def hashtags_listed_def
  by (simp only: pos_int_iff add_0)

lemma spec_signal_sum_nonneg: "0 \<le> spec_signal_sum d"
  unfolding spec_signal_sum_def
  by (intro add_nonneg_nonneg signal_points_nonneg) simp_all

text \<open>
  C2. The quality score of every document is the sum of the signal table capped at 10, so it
  lies between 0 and 10; a text of 60 words with a question mark, exactly one hashtag and 4
  lines, without blank-line break and without keyword, scores 5.5. The hashtag rows do not
  read the text: they count the entries of the hashtag list of the metadata. The text of the
  scenario, with \<open>#AI\<close> in it once and the default metadata, scores 4.
\<close>

theorem scenario_as_stated_scores_four:
  "count_words scenario_text = 60 \<and> sublist ''?'' scenario_text
   \<and> sublist ''#AI'' scenario_text \<and> count_list scenario_text (CHR ''#'') = 1
   \<and> count_lines scenario_text = 4 \<and> \<not> sublist [newline, newline] scenario_text
   \<and> \<not> has_keyword all_keywords scenario_text
   \<and> post_text scenario_document = scenario_text
   \<and> calculate_post_quality_score scenario_document = 4
   \<and> calculate_post_quality_score scenario_document \<noteq> 11/2"
proof -
  have a: "count_words scenario_text = 60" by code_simp
  have b: "sublist ''?'' scenario_text" by code_simp
  have c: "sublist ''#AI'' scenario_text" by code_simp
  have d: "count_list scenario_text (CHR ''#'') = 1" by code_simp
  have e: "count_lines scenario_text = 4" by code_simp
  have f: "\<not> sublist [newline, newline] scenario_text" by code_simp
  have g: "\<not> has_keyword all_keywords scenario_text" by code_simp
  have h: "post_text scenario_document = scenario_text" by code_simp
  have i: "calculate_post_quality_score scenario_document = 4" by code_simp
  from a b c d e f g h i show ?thesis by simp
qed

text \<open>
  C2, amended. The quality score of every document is the sum of the signal table capped at
  10, where the word and line counts are those of the document, the hashtags counted are the
  entries of the hashtag list of its metadata, and a keyword counts wherever it occurs in the
  text, whatever the case of its letters. The score lies between 0 and 10. A document of 60
  words and 4 lines with a question mark and exactly one entry in its hashtag list, without
  exclamation mark, blank-line break or keyword, scores 5.5.
\<close>

theorem quality_score_is_capped_signal_sum:
  "calculate_post_quality_score d = min (spec_signal_sum d) 10
   \<and> 0 \<le> calculate_post_quality_score d \<and> calculate_post_quality_score d \<le> 10
   \<and> (word_count d = 60 \<and> sublist ''?'' (post_text d) \<and> \<not> sublist ''!'' (post_text d)
        \<and> hashtags_listed d = 1 \<and> line_count d = 4
        \<and> \<not> sublist [newline, newline] (post_text d)
        \<and> \<not> has_keyword all_keywords (post_text d)
        \<longrightarrow> calculate_post_quality_score d = 11/2)"
proof -
  have eq: "calculate_post_quality_score d = min (spec_signal_sum d) 10"
    by (rule score_is_capped_sum)
  have lo: "0 \<le> calculate_post_quality_score d"
    using spec_signal_sum_nonneg [of d] by (simp add: eq)
  have hi: "calculate_post_quality_score d \<le> 10"
    by (simp add: eq)
  have sc: "calculate_post_quality_score d = 11/2"
    if "word_count d = 60" "sublist ''?'' (post_text d)" "\<not> sublist ''!'' (post_text d)"
       "hashtags_listed d = 1" "line_count d = 4"
       "\<not> sublist [newline, newline] (post_text d)"
       "\<not> has_keyword all_keywords (post_text d)"
    using that
    by (simp add: eq spec_signal_sum_def signal_points_def has_keyword_all)
  from eq lo hi sc show ?thesis by blast
qed

lemma scenario_post_facts:
  "word_count scenario_post = 60" "sublist ''?'' (post_text scenario_post)"
  "\<not> sublist ''!'' (post_text scenario_post)" "hashtags_listed scenario_post = 1"
  "line_count scenario_post = 4" "\<not> sublist [newline, newline] (post_text scenario_post)"
  "\<not> has_keyword all_keywords (post_text scenario_post)"
  by code_simp+

lemma keyword_post_facts:
  "word_count keyword_post = 9" "line_count keyword_post = 3"
  "hashtags_listed keyword_post = 6"
  "has_keyword logical_connectors (post_text keyword_post)"
  "has_keyword insight_markers (post_text keyword_post)"
  "has_keyword experience_markers (post_text keyword_post)"
  "has_keyword actionable_markers (post_text keyword_post)"
  "has_keyword professional_tone_words (post_text keyword_post)"
  "spec_signal_sum keyword_post = 13/2"
  "calculate_post_quality_score keyword_post = 13/2"
  by code_simp+

theorem quality_score_is_capped_signal_sum_witness:
  "word_count scenario_post = 60 \<and> sublist ''?'' (post_text scenario_post)
   \<and> \<not> sublist ''!'' (post_text scenario_post) \<and> hashtags_listed scenario_post = 1
   \<and> line_count scenario_post = 4
   \<and> \<not> sublist [newline, newline] (post_text scenario_post)
   \<and> \<not> has_keyword all_keywords (post_text scenario_post)
   \<and> calculate_post_quality_score scenario_post = 11/2
   \<and> has_keyword professional_tone_words (post_text keyword_post)
   \<and> calculate_post_quality_score keyword_post = 13/2"
  using quality_score_is_capped_signal_sum [of scenario_post] scenario_post_facts
    keyword_post_facts
  by blast


text \<open>
  C8. Scoring is a function of the text alone: two documents with equal text score the same.
  The code also reads the metadata (supplied word and line counts, the list of hashtags):
  two documents with the same text and a different number of hashtags score differently.
\<close>

theorem equal_text_different_score:
  "post_text untagged_post = post_text tagged_post
   \<and> calculate_post_quality_score untagged_post \<noteq> calculate_post_quality_score tagged_post"
  by code_simp

text \<open>
  C8, amended. The score is a function of the text, of the word and line counts held in the
  metadata, and of the number of hashtags in the metadata: two documents that agree on these
  four score the same, whatever else differs.
\<close>

theorem score_determined_by_text_and_counts:
  assumes "post_text p = post_text q"
    and "meta_word_count (metadata p) = meta_word_count (metadata q)"
    and "meta_line_count (metadata p) = meta_line_count (metadata q)"
    and "length (meta_hashtags (metadata p)) = length (meta_hashtags (metadata q))"
  shows "calculate_post_quality_score p = calculate_post_quality_score q"
proof -
  have w: "word_count p = word_count q"
    using assms by (simp add: word_count_def split: option.splits)
  have l: "line_count p = line_count q"
    using assms by (simp add: line_count_def split: option.splits)
  have h: "hashtag_count p = hashtag_count q"
    using assms by (simp add: hashtag_count_def)
  have q: "has_question p = has_question q" "has_exclamation p = has_exclamation q"
    using assms by (simp_all add: has_question_def has_exclamation_def)
  show ?thesis
    unfolding calculate_post_quality_score_def w l h q assms(1) ..
qed

theorem score_determined_by_text_and_counts_witness:
  "post_text tagged_post = post_text retagged_post
   \<and> post_id tagged_post \<noteq> post_id retagged_post
   \<and> meta_hashtags (metadata tagged_post) \<noteq> meta_hashtags (metadata retagged_post)
   \<and> calculate_post_quality_score tagged_post = calculate_post_quality_score retagged_post"
proof -
  have 1: "post_text tagged_post = post_text retagged_post" by code_simp
  have 2: "meta_word_count (metadata tagged_post) = meta_word_count (metadata retagged_post)"
    by code_simp
  have 3: "meta_line_count (metadata tagged_post) = meta_line_count (metadata retagged_post)"
    by code_simp
  have 4: "length (meta_hashtags (metadata tagged_post))
             = length (meta_hashtags (metadata retagged_post))"
    by code_simp
  have 5: "post_id tagged_post \<noteq> post_id retagged_post" by code_simp
  have 6: "meta_hashtags (metadata tagged_post) \<noteq> meta_hashtags (metadata retagged_post)"
    by code_simp
  from score_determined_by_text_and_counts [OF 1 2 3 4] 1 5 6 show ?thesis by blast
qed

section \<open>Quality assessment\<close>

lemma on_validation_error_initial:
  "on_validation_error initial_report (ValidationError msg) = failed_report msg"
  by (simp add: on_validation_error_def initial_report_def failed_report_def)

text \<open>
  C9. The quality assessment never lets a \<open>ValidationError\<close> reach its caller: it always
  returns a report, and when the text, the hashtags or the metadata fail validation, the
  report is invalid, its errors hold the message of the failure, and the score is still the
  initial 0.0 (no warnings, no metrics).
\<close>

theorem validation_errors_are_captured:
  "(\<exists>report. validate_post_quality post = Inr report)
   \<and> (validate_post_text (post_text post) = Inl (ValidationError msg)
        \<longrightarrow> validate_post_quality post = Inr (failed_report msg))
   \<and> (validate_post_text (post_text post) = Inr True
        \<and> meta_hashtags (metadata post) \<noteq> []
        \<and> validate_hashtags (meta_hashtags (metadata post)) = Inl (ValidationError msg)
        \<longrightarrow> validate_post_quality post = Inr (failed_report msg))
   \<and> (validate_post_text (post_text post) = Inr True
        \<and> (meta_hashtags (metadata post) = []
            \<or> validate_hashtags (meta_hashtags (metadata post)) = Inr True)
        \<and> validate_post_metadata (metadata post) = Inl (ValidationError msg)
        \<longrightarrow> validate_post_quality post = Inr (failed_report msg))"
proof -
  have total: "\<exists>report. validate_post_quality post = Inr report"
    by (simp add: validate_post_quality_def Let_def split: sum.splits)
  have text_fails: "validate_post_quality post = Inr (failed_report msg)"
    if "validate_post_text (post_text post) = Inl (ValidationError msg)"
    using that by (simp add: validate_post_quality_def on_validation_error_initial)
  have tags_fail: "validate_post_quality post = Inr (failed_report msg)"
    if "validate_post_text (post_text post) = Inr True"
       "meta_hashtags (metadata post) \<noteq> []"
       "validate_hashtags (meta_hashtags (metadata post)) = Inl (ValidationError msg)"
    using that by (simp add: validate_post_quality_def on_validation_error_initial)
  have meta_fails: "validate_post_quality post = Inr (failed_report msg)"
    if "validate_post_text (post_text post) = Inr True"
       "meta_hashtags (metadata post) = []
        \<or> validate_hashtags (meta_hashtags (metadata post)) = Inr True"
       "validate_post_metadata (metadata post) = Inl (ValidationError msg)"
    using that by (auto simp add: validate_post_quality_def on_validation_error_initial)
  from total text_fails tags_fail meta_fails show ?thesis by blast
qed

theorem validation_errors_are_captured_witness:
  "validate_post_quality empty_text_post = Inr (failed_report ''Post text cannot be empty'')
   \<and> validate_post_quality bad_hashtag_post
       = Inr (failed_report (''Hashtag '' @ quoted ''#bad tag'' @ '' contains invalid characters''))
   \<and> validate_post_quality bad_tone_post = Inr (failed_report ''Invalid tone: angry'')"
proof -
  have 1: "validate_post_text (post_text empty_text_post)
             = Inl (ValidationError ''Post text cannot be empty'')"
    by code_simp
  have 2: "validate_post_text (post_text bad_hashtag_post) = Inr True"
    "meta_hashtags (metadata bad_hashtag_post) \<noteq> []"
    "validate_hashtags (meta_hashtags (metadata bad_hashtag_post))
       = Inl (ValidationError (''Hashtag '' @ quoted ''#bad tag'' @ '' contains invalid characters''))"
    by code_simp+
  have 3: "validate_post_text (post_text bad_tone_post) = Inr True"
    "meta_hashtags (metadata bad_tone_post) = []"
    "validate_post_metadata (metadata bad_tone_post)
       = Inl (ValidationError ''Invalid tone: angry'')"
    by code_simp+
  show ?thesis
    using validation_errors_are_captured [of empty_text_post "''Post text cannot be empty''"]
      validation_errors_are_captured [of bad_hashtag_post
        "''Hashtag '' @ quoted ''#bad tag'' @ '' contains invalid characters''"]
      validation_errors_are_captured [of bad_tone_post "''Invalid tone: angry''"]
      1 2 3
    by blast
qed


section \<open>Validity\<close>

lemma strip_Nil: "strip [] = []"
  by (simp add: strip_def)

lemma validate_post_text_ok:
  "validate_post_text t =
     (if strip t \<noteq> [] \<and> 10 \<le> length (strip t) \<and> length t \<le> 3000
         \<and> count_list t (CHR ''#'') \<le> 10
      then Inr True else Inl (projl (validate_post_text t)))"
  by (auto simp: validate_post_text_def Let_def strip_Nil)

lemma is_valid_add_warning: "is_valid (add_warning c m r) = is_valid r"
  by (simp add: add_warning_def)

lemma newline_not_word_char: "\<not> is_word_char newline"
  by (simp add: is_word_char_def is_lower_def is_upper_def is_digit_def newline_def)

lemma re_match_hashtag_pattern:
  assumes "no_trailing_newline h"
  shows "re_match_hashtag h =
           (case h of [] \<Rightarrow> False
            | c # body \<Rightarrow> c = CHR ''#'' \<and> body \<noteq> [] \<and> list_all is_word_char body)"
proof (cases h)
  case Nil
  then show ?thesis by (simp add: re_match_hashtag_def)
next
  case (Cons c body)
  have drop: "dropWhile is_word_char body \<noteq> [newline]"
  proof
    assume d: "dropWhile is_word_char body = [newline]"
    have "body = takeWhile is_word_char body @ dropWhile is_word_char body" by simp
    then have "body = takeWhile is_word_char body @ [newline]" using d by simp
    then have "last body = newline \<and> body \<noteq> []"
      by (metis last_snoc snoc_eq_iff_butlast)
    then show False using assms Cons by (simp add: no_trailing_newline_def)
  qed
  have all: "(dropWhile is_word_char body = []) = list_all is_word_char body"
    by (simp add: dropWhile_eq_Nil_conv list_all_iff)
  have tk: "list_all is_word_char body \<Longrightarrow> takeWhile is_word_char body = body"
    by (simp add: list_all_iff)
  show ?thesis
  proof (cases "list_all is_word_char body")
    case True
    then have tw: "takeWhile is_word_char body = body"
      by (metis list_all_iff takeWhile_eq_all_conv)
    from True have dw: "dropWhile is_word_char body = []"
      by (metis list_all_iff dropWhile_eq_Nil_conv)
    show ?thesis
      unfolding re_match_hashtag_def Cons list.case tw dw using True by simp
  next
    case False
    then have "dropWhile is_word_char body \<noteq> []"
      by (metis list_all_iff dropWhile_eq_Nil_conv)
    then show ?thesis
      unfolding re_match_hashtag_def Cons list.case using False drop by simp
  qed
qed

lemma validate_hashtags_ok:
  "validate_hashtags hs =
     (if list_all (\<lambda>h. startswith h ''#'' \<and> 2 \<le> length h \<and> length h \<le> 50
                       \<and> re_match_hashtag h) hs
      then Inr True else Inl (projl (validate_hashtags hs)))"
  by (induction hs) auto

lemma hashtags_ok_claimed:
  assumes "list_all no_trailing_newline hs"
  shows "list_all (\<lambda>h. startswith h ''#'' \<and> 2 \<le> length h \<and> length h \<le> 50
                       \<and> re_match_hashtag h) hs = list_all hashtag_as_claimed hs"
  using assms
  by (induction hs) (auto simp: hashtag_as_claimed_def re_match_hashtag_pattern)

lemma validate_post_metadata_ok:
  "validate_post_metadata md =
     (if (case meta_topic md of None \<Rightarrow> True | Some t \<Rightarrow> length t \<le> 100)
         \<and> (case meta_tone md of None \<Rightarrow> True | Some t \<Rightarrow> t = [] \<or> t \<in> set allowed_tones)
         \<and> (case meta_estimated_engagement md of
               None \<Rightarrow> True | Some e \<Rightarrow> e = [] \<or> e \<in> set allowed_engagement_levels)
         \<and> (case meta_quality_score md of None \<Rightarrow> True | Some q \<Rightarrow> 0 \<le> q \<and> q \<le> 10)
      then Inr True else Inl (projl (validate_post_metadata md)))"
  by (auto simp: validate_post_metadata_def truthy_str_def split: option.splits)

lemma validate_post_text_cases:
  "validate_post_text t = Inr True \<or> (\<exists>msg. validate_post_text t = Inl (ValidationError msg))"
  by (simp add: validate_post_text_def Let_def)

lemma validate_hashtags_cases:
  "validate_hashtags hs = Inr True \<or> (\<exists>msg. validate_hashtags hs = Inl (ValidationError msg))"
  by (induction hs) simp_all

lemma validate_post_metadata_cases:
  "validate_post_metadata md = Inr True
   \<or> (\<exists>msg. validate_post_metadata md = Inl (ValidationError msg))"
  by (simp add: validate_post_metadata_def split: option.splits)

lemma not_valid_on_error: "\<not> is_valid (on_validation_error r e)"
  by (cases e) (simp add: on_validation_error_def)

lemma assessed_valid_validators:
  "assessed_valid post =
     (validate_post_text (post_text post) = Inr True
      \<and> (meta_hashtags (metadata post) = []
          \<or> validate_hashtags (meta_hashtags (metadata post)) = Inr True)
      \<and> validate_post_metadata (metadata post) = Inr True)"
proof -
  let ?tags = "if meta_hashtags (metadata post) \<noteq> []
               then validate_hashtags (meta_hashtags (metadata post)) else Inr True"
  have tags: "?tags = Inr True \<or> (\<exists>msg. ?tags = Inl (ValidationError msg))"
    using validate_hashtags_cases [of "meta_hashtags (metadata post)"] by simp
  have tags_ok: "(?tags = Inr True) =
      (meta_hashtags (metadata post) = []
       \<or> validate_hashtags (meta_hashtags (metadata post)) = Inr True)"
    by simp
  consider (text_bad) msg where "validate_post_text (post_text post) = Inl (ValidationError msg)"
    | (tags_bad) msg where "validate_post_text (post_text post) = Inr True"
        "?tags = Inl (ValidationError msg)"
    | (meta_bad) msg where "validate_post_text (post_text post) = Inr True" "?tags = Inr True"
        "validate_post_metadata (metadata post) = Inl (ValidationError msg)"
    | (good) "validate_post_text (post_text post) = Inr True" "?tags = Inr True"
        "validate_post_metadata (metadata post) = Inr True"
    using validate_post_text_cases [of "post_text post"] tags
      validate_post_metadata_cases [of "metadata post"]
    by blast
  then show ?thesis
  proof cases
    case text_bad
    then show ?thesis
      by (simp add: assessed_valid_def validate_post_quality_def not_valid_on_error)
  next
    case tags_bad
    have "\<not> assessed_valid post"
      unfolding assessed_valid_def validate_post_quality_def Let_def
      by (simp only: tags_bad sum.case not_valid_on_error not_False_eq_True)
    moreover have "?tags \<noteq> Inr True" using tags_bad(2) by simp
    ultimately show ?thesis using tags_ok by blast
  next
    case meta_bad
    have "\<not> assessed_valid post"
      unfolding assessed_valid_def validate_post_quality_def Let_def
      by (simp only: meta_bad sum.case not_valid_on_error not_False_eq_True)
    then show ?thesis using meta_bad(3) by simp
  next
    case good
    have "assessed_valid post"
      unfolding assessed_valid_def validate_post_quality_def Let_def
      by (simp only: good sum.case is_valid_add_warning)
         (simp add: initial_report_def)
    then show ?thesis using good tags_ok by blast
  qed
qed

text \<open>
  C10. The report is valid exactly when the text is not blank, its stripped length is at
  least 10, its length at most 3000, it has at most 10 \<open>#\<close> characters, every hashtag is
  well formed, and topic, tone, engagement level and quality score, when present, are within
  their bounds. A tone that is present but empty is not in the allowed set, and the code
  accepts it.
\<close>

theorem empty_tone_is_accepted:
  "assessed_valid empty_tone_post \<and> \<not> valid_as_claimed empty_tone_post"
  by code_simp

text \<open>
  C10, amended. For a post none of whose hashtags ends in a line feed, the report is valid
  exactly when the conditions above hold, with tone and engagement level checked only when
  they are present and not empty.
\<close>

theorem is_valid_iff_rules:
  assumes "list_all no_trailing_newline (meta_hashtags (metadata post))"
  shows "assessed_valid post =
     (strip (post_text post) \<noteq> []
      \<and> 10 \<le> length (strip (post_text post))
      \<and> length (post_text post) \<le> 3000
      \<and> count_list (post_text post) (CHR ''#'') \<le> 10
      \<and> list_all hashtag_as_claimed (meta_hashtags (metadata post))
      \<and> (case meta_topic (metadata post) of None \<Rightarrow> True | Some t \<Rightarrow> length t \<le> 100)
      \<and> (case meta_tone (metadata post) of
            None \<Rightarrow> True | Some t \<Rightarrow> t = [] \<or> t \<in> set allowed_tones)
      \<and> (case meta_estimated_engagement (metadata post) of
            None \<Rightarrow> True | Some e \<Rightarrow> e = [] \<or> e \<in> set allowed_engagement_levels)
      \<and> (case meta_quality_score (metadata post) of
            None \<Rightarrow> True | Some q \<Rightarrow> 0 \<le> q \<and> q \<le> 10))"
proof -
  let ?hs = "meta_hashtags (metadata post)"
  have t: "(validate_post_text (post_text post) = Inr True) =
      (strip (post_text post) \<noteq> [] \<and> 10 \<le> length (strip (post_text post))
       \<and> length (post_text post) \<le> 3000 \<and> count_list (post_text post) (CHR ''#'') \<le> 10)"
    by (subst validate_post_text_ok) simp
  have "(validate_hashtags ?hs = Inr True) =
      list_all (\<lambda>h. startswith h ''#'' \<and> 2 \<le> length h \<and> length h \<le> 50
                     \<and> re_match_hashtag h) ?hs"
    by (subst validate_hashtags_ok) simp
  then have h: "(?hs = [] \<or> validate_hashtags ?hs = Inr True) = list_all hashtag_as_claimed ?hs"
    using hashtags_ok_claimed [OF assms] by auto
  have m: "(validate_post_metadata (metadata post) = Inr True) =
      ((case meta_topic (metadata post) of None \<Rightarrow> True | Some t \<Rightarrow> length t \<le> 100)
       \<and> (case meta_tone (metadata post) of
             None \<Rightarrow> True | Some t \<Rightarrow> t = [] \<or> t \<in> set allowed_tones)
       \<and> (case meta_estimated_engagement (metadata post) of
             None \<Rightarrow> True | Some e \<Rightarrow> e = [] \<or> e \<in> set allowed_engagement_levels)
       \<and> (case meta_quality_score (metadata post) of
             None \<Rightarrow> True | Some q \<Rightarrow> 0 \<le> q \<and> q \<le> 10))"
    by (subst validate_post_metadata_ok) simp
  show ?thesis
    unfolding assessed_valid_validators t h m by blast
qed

theorem is_valid_iff_rules_witness:
  "list_all no_trailing_newline (meta_hashtags (metadata well_formed_post))
   \<and> assessed_valid well_formed_post
   \<and> list_all hashtag_as_claimed (meta_hashtags (metadata well_formed_post))"
proof -
  have a: "list_all no_trailing_newline (meta_hashtags (metadata well_formed_post))"
    by code_simp
  have b: "strip (post_text well_formed_post) \<noteq> []"
    "10 \<le> length (strip (post_text well_formed_post))"
    "length (post_text well_formed_post) \<le> 3000"
    "count_list (post_text well_formed_post) (CHR ''#'') \<le> 10"
    "list_all hashtag_as_claimed (meta_hashtags (metadata well_formed_post))"
    by code_simp+
  have c: "(case meta_topic (metadata well_formed_post) of
              None \<Rightarrow> True | Some t \<Rightarrow> length t \<le> 100)"
    "(case meta_tone (metadata well_formed_post) of
        None \<Rightarrow> True | Some t \<Rightarrow> t = [] \<or> t \<in> set allowed_tones)"
    "(case meta_estimated_engagement (metadata well_formed_post) of
        None \<Rightarrow> True | Some e \<Rightarrow> e = [] \<or> e \<in> set allowed_engagement_levels)"
    "(case meta_quality_score (metadata well_formed_post) of
        None \<Rightarrow> True | Some q \<Rightarrow> 0 \<le> q \<and> q \<le> 10)"
    by code_simp+
  show ?thesis
    using is_valid_iff_rules [OF a] a b c by blast
qed

section \<open>Title case and first-seen order\<close>

lemma upper_of_lower:
  assumes "is_lower c"
  shows "is_upper (upper_char c) \<and> \<not> is_lower (upper_char c)"
proof -
  have a: "list_all (\<lambda>d. is_upper (upper_char d) \<and> \<not> is_lower (upper_char d))
          ''abcdefghijklmnopqrstuvwxyz''"
    by code_simp
  have "c \<in> set ''abcdefghijklmnopqrstuvwxyz''"
    using assms unfolding is_lower_def .
  with a show ?thesis unfolding list_all_iff by blast
qed

lemma lower_of_upper:
  assumes "is_upper c"
  shows "is_lower (lower_char c) \<and> \<not> is_upper (lower_char c)"
proof -
  have a: "list_all (\<lambda>d. is_lower (lower_char d) \<and> \<not> is_upper (lower_char d))
          ''ABCDEFGHIJKLMNOPQRSTUVWXYZ''"
    by code_simp
  have "c \<in> set ''ABCDEFGHIJKLMNOPQRSTUVWXYZ''"
    using assms unfolding is_upper_def .
  with a show ?thesis unfolding list_all_iff by blast
qed

lemma title_from_idem: "title_from prev (title_from prev s) = title_from prev s"
proof (induction s arbitrary: prev)
  case Nil
  then show ?case by simp
next
  case (Cons c s)
  consider (low) "is_lower c" | (up) "is_upper c" "\<not> is_lower c"
    | (other) "\<not> is_lower c" "\<not> is_upper c"
    by blast
  then show ?case
  proof cases
    case low
    then show ?thesis
      using Cons.IH [of True] upper_of_lower [OF low] by simp
  next
    case up
    then show ?thesis
      using Cons.IH [of True] lower_of_upper [OF up(1)] by simp
  next
    case other
    then show ?thesis using Cons.IH [of False] by simp
  qed
qed

lemma title_idem: "title (title s) = title s"
  by (simp add: title_def title_from_idem)

lemma title_from_Nil_iff: "(title_from prev s = []) = (s = [])"
  by (cases s) simp_all

lemma title_Nil_iff: "(title s = []) = (s = [])"
  by (simp add: title_def title_from_Nil_iff)

lemma set_fromkeys: "set (fromkeys ks xs) = set ks \<union> set xs"
  by (induction xs arbitrary: ks) auto


lemma remdups_append_member:
  "x \<in> set bs \<Longrightarrow> remdups (as @ x # bs) = remdups (as @ bs)"
  by (induction as) auto

lemma fromkeys_first_seen_gen:
  "distinct keys \<Longrightarrow> fromkeys keys xs = rev (remdups (rev (keys @ xs)))"
proof (induction xs arbitrary: keys)
  case Nil
  then show ?case by (simp add: distinct_remdups_id)
next
  case (Cons x xs)
  show ?case
  proof (cases "x \<in> set keys")
    case True
    then have "fromkeys keys (x # xs) = rev (remdups (rev (keys @ xs)))"
      using Cons.IH [OF Cons.prems] by simp
    also have "remdups (rev (keys @ xs)) = remdups (rev (keys @ x # xs))"
      using True by (simp add: remdups_append_member)
    finally show ?thesis .
  next
    case False
    then have d: "distinct (keys @ [x])" using Cons.prems by simp
    show ?thesis using False Cons.IH [OF d] by simp
  qed
qed

lemma fromkeys_first_seen: "fromkeys [] xs = first_seen xs"
  using fromkeys_first_seen_gen [of "[]" xs] by (simp add: first_seen_def)

lemma first_seen_map_first_seen: "first_seen (map f (first_seen xs)) = first_seen (map f xs)"
  by (simp add: first_seen_def rev_map remdups_map_remdups)

lemma set_first_seen: "set (first_seen xs) = set xs"
  by (simp add: first_seen_def)

lemma distinct_first_seen: "distinct (first_seen xs)"
  by (simp add: first_seen_def)

lemma first_seen_same_set:
  "set xs = set ys \<Longrightarrow> set (first_seen (map f xs)) = set (first_seen (map f ys))"
  by (simp add: set_first_seen)

section \<open>Tag resolution\<close>


lemma resolver_fallback:
  assumes "invoke (join '','' (sort (remdups tags))) = Inl e
           \<or> (\<exists>response e1 e2. invoke (join '','' (sort (remdups tags))) = Inr response
                 \<and> parse response = Inl e1
                 \<and> loads (extract_json_from_text response) = Inl e2)"
  shows "get_unified_tags (Inr invoke) parse loads tags = Inr (fallback_mapping tags)"
  using assms
  by (auto simp: get_unified_tags_def Let_def split: sum.splits exn.splits)

lemma client_failure_propagates: "get_unified_tags (Inl e) parse loads tags = Inl e"
  by (simp add: get_unified_tags_def)

lemma fallback_invariant:
  assumes "[] \<notin> set tags"
  shows "mapping_invariant tags (fallback_mapping tags)"
  using assms
  by (auto simp: mapping_invariant_def fallback_mapping_def list_all_iff set_fromkeys
      title_idem title_Nil_iff image_iff comp_def)



text \<open>
  C5. The domain of the mapping the resolver returns holds every candidate, and every value
  of the mapping is a non-empty, title-cased string. When the response of the collaborator
  parses, the resolver returns the parsed mapping as it is: a response \<open>{}\<close>, alone or inside
  a sentence, gives the empty mapping, which holds no candidate. On the fallback path an
  empty candidate maps to the empty string.
\<close>

theorem resolver_returns_answer_unchecked:
  "get_unified_tags (Inr answers_empty_object) empty_object_parser rejecting_loads
     [''Jobseekers''] = Inr []
   \<and> get_unified_tags (Inr answers_with_preamble) empty_object_parser empty_object_parser
     [''Jobseekers''] = Inr []
   \<and> \<not> resolved_within_invariant [''Jobseekers''] (Inr [])
   \<and> get_unified_tags (Inr unreachable) empty_object_parser rejecting_loads [[]]
       = Inr [([], [])]
   \<and> \<not> resolved_within_invariant [[]] (Inr [([], [])])"
  by code_simp

text \<open>
  C5, amended. When the response of the collaborator parses, strictly or after extraction of
  the brace-delimited substring, the resolver returns the parsed mapping unchanged. When the
  call fails or both parses fail, and no candidate is the empty string, the resolver returns
  a mapping whose domain holds every candidate and whose values are all non-empty and
  title-cased.
\<close>

theorem resolver_mapping_invariant:
  "(invoke (join '','' (sort (remdups tags))) = Inr response \<and> parse response = Inr res
      \<longrightarrow> get_unified_tags (Inr invoke) parse loads tags = Inr res)
   \<and> (invoke (join '','' (sort (remdups tags))) = Inr response
        \<and> parse response = Inl OutputParserException
        \<and> loads (extract_json_from_text response) = Inr res
      \<longrightarrow> get_unified_tags (Inr invoke) parse loads tags = Inr res)
   \<and> ((invoke (join '','' (sort (remdups tags))) = Inl e
         \<or> (invoke (join '','' (sort (remdups tags))) = Inr response
             \<and> parse response = Inl e1
             \<and> loads (extract_json_from_text response) = Inl e2))
        \<and> [] \<notin> set tags
      \<longrightarrow> resolved_within_invariant tags (get_unified_tags (Inr invoke) parse loads tags))"
proof -
  have a: "get_unified_tags (Inr invoke) parse loads tags = Inr res"
    if "invoke (join '','' (sort (remdups tags))) = Inr response" "parse response = Inr res"
    using that by (simp add: get_unified_tags_def Let_def)
  have b: "get_unified_tags (Inr invoke) parse loads tags = Inr res"
    if "invoke (join '','' (sort (remdups tags))) = Inr response"
       "parse response = Inl OutputParserException"
       "loads (extract_json_from_text response) = Inr res"
    using that by (simp add: get_unified_tags_def Let_def)
  have c: "resolved_within_invariant tags (get_unified_tags (Inr invoke) parse loads tags)"
    if h: "invoke (join '','' (sort (remdups tags))) = Inl e
           \<or> (invoke (join '','' (sort (remdups tags))) = Inr response
               \<and> parse response = Inl e1
               \<and> loads (extract_json_from_text response) = Inl e2)"
      and n: "[] \<notin> set tags"
  proof -
    have "get_unified_tags (Inr invoke) parse loads tags = Inr (fallback_mapping tags)"
      using resolver_fallback [of invoke tags e parse loads] h by blast
    then show ?thesis
      using fallback_invariant [OF n] by (simp add: resolved_within_invariant_def)
  qed
  from a b c show ?thesis by blast
qed

theorem resolver_mapping_invariant_witness:
  "answers_empty_object (join '','' (sort (remdups [''Jobseekers'']))) = Inr ''{}''
   \<and> empty_object_parser ''{}'' = Inr []
   \<and> get_unified_tags (Inr answers_empty_object) empty_object_parser rejecting_loads
        [''Jobseekers''] = Inr []
   \<and> unreachable (join '','' (sort (remdups [''Jobseekers'', ''Job Hunting''])))
        = Inl (ConnectionError ''unreachable'')
   \<and> [] \<notin> set [''Jobseekers'', ''Job Hunting'']
   \<and> resolved_within_invariant [''Jobseekers'', ''Job Hunting'']
        (get_unified_tags (Inr unreachable) empty_object_parser rejecting_loads
           [''Jobseekers'', ''Job Hunting''])"
proof -
  have a: "answers_empty_object (join '','' (sort (remdups [''Jobseekers'']))) = Inr ''{}''"
    by (simp add: answers_empty_object_def)
  have b: "empty_object_parser ''{}'' = Inr []"
    by (simp add: empty_object_parser_def)
  have c: "get_unified_tags (Inr answers_empty_object) empty_object_parser rejecting_loads
             [''Jobseekers''] = Inr []"
    using resolver_mapping_invariant [of answers_empty_object "[''Jobseekers'']" "''{}''"
        empty_object_parser "[]" rejecting_loads] a b
    by blast
  have u: "unreachable (join '','' (sort (remdups [''Jobseekers'', ''Job Hunting''])))
             = Inl (ConnectionError ''unreachable'')"
    by (simp add: unreachable_def)
  have n: "[] \<notin> set [''Jobseekers'', ''Job Hunting'']" by simp
  have d: "resolved_within_invariant [''Jobseekers'', ''Job Hunting'']
             (get_unified_tags (Inr unreachable) empty_object_parser rejecting_loads
                [''Jobseekers'', ''Job Hunting''])"
    using resolver_mapping_invariant [of unreachable "[''Jobseekers'', ''Job Hunting'']" _
        empty_object_parser _ rejecting_loads "ConnectionError ''unreachable''"] u n
    by blast
  from a b c u n d show ?thesis by blast
qed

section \<open>Enrichment\<close>

lemma collect_tags_normalised: "collect_tags md = normalised_tags md"
  by (simp add: collect_tags_def normalised_tags_def remove_char_def split: option.splits)

lemma dict_get_project: "dict_get m t t = project m t"
  by (simp add: dict_get_def project_def split: option.splits)

lemma unified_tags_of_in_set_order:
  "unified_tags_of set_order m md = unified_tags_in_set_order set_order m md"
  by (simp add: unified_tags_of_def unified_tags_in_set_order_def Let_def fromkeys_first_seen
      collect_tags_normalised dict_get_project)

lemma enrich_post_unified_tags:
  assumes "rp_text post = Some txt"
  shows "stored_unified_tags (enrich_post set_order m post s) =
           Some (unified_tags_of set_order m (metadata_before post s))"
  using assms
  by (cases "rp_metadata post")
     (simp_all add: enrich_post_def stored_unified_tags_def metadata_before_def update_dict_def
       Let_def unified_tags_of_def collect_tags_def empty_dict_def)

text \<open>
  C7. The unified tags of an enriched post are the topic and then the hashtags without their
  marker, each trimmed and title-cased, each projected through the mapping (the normalised
  tag itself when the mapping has none), duplicates removed and the first-seen order of that
  collection kept. The code collects the normalised tags in a set and projects them in the
  order the set is iterated: when the set yields the hashtag before the topic, so does the
  result.
\<close>

theorem unified_tags_follow_set_order:
  "stored_unified_tags (enrich_post rev [] raw_document raw_store) = Some [''Ai'', ''Startup'']
   \<and> unified_tags_as_claimed [] (metadata_before raw_document raw_store) = [''Startup'', ''Ai'']"
  by code_simp

text \<open>
  C7, amended. The unified tags of an enriched post are the normalised tags (topic and
  hashtags without marker, trimmed and title-cased) taken as a set, projected through the
  mapping in the order the set is iterated, duplicates removed and first-seen order kept.
  Whatever that order, the result has no duplicates and holds exactly the projections of
  the normalised tags; when the set is iterated in insertion order it is the list of the
  claim, topic first.
\<close>

theorem unified_tags_of_enriched_post:
  assumes "rp_text post = Some txt"
    and "set (set_order (first_seen (normalised_tags (metadata_before post s))))
           = set (normalised_tags (metadata_before post s))"
  shows "stored_unified_tags (enrich_post set_order m post s)
           = Some (unified_tags_in_set_order set_order m (metadata_before post s))
         \<and> distinct (unified_tags_in_set_order set_order m (metadata_before post s))
         \<and> set (unified_tags_in_set_order set_order m (metadata_before post s))
             = set (unified_tags_as_claimed m (metadata_before post s))
         \<and> (set_order (first_seen (normalised_tags (metadata_before post s)))
               = first_seen (normalised_tags (metadata_before post s))
             \<longrightarrow> unified_tags_in_set_order set_order m (metadata_before post s)
                   = unified_tags_as_claimed m (metadata_before post s))"
proof -
  let ?md = "metadata_before post s"
  have a: "stored_unified_tags (enrich_post set_order m post s)
             = Some (unified_tags_in_set_order set_order m ?md)"
    using enrich_post_unified_tags [OF assms(1)] unified_tags_of_in_set_order by simp
  have b: "distinct (unified_tags_in_set_order set_order m ?md)"
    by (simp add: unified_tags_in_set_order_def distinct_first_seen)
  have c: "set (unified_tags_in_set_order set_order m ?md)
             = set (unified_tags_as_claimed m ?md)"
    using assms(2)
    by (simp add: unified_tags_in_set_order_def unified_tags_as_claimed_def set_first_seen)
  have d: "unified_tags_in_set_order set_order m ?md = unified_tags_as_claimed m ?md"
    if "set_order (first_seen (normalised_tags ?md)) = first_seen (normalised_tags ?md)"
    using that
    by (simp add: unified_tags_in_set_order_def unified_tags_as_claimed_def
        first_seen_map_first_seen)
  from a b c d show ?thesis by blast
qed

theorem unified_tags_of_enriched_post_witness:
  "rp_text raw_document = Some (''Line1'' @ [newline] @ ''Line2'')
   \<and> set (rev (first_seen (normalised_tags (metadata_before raw_document tagged_store))))
       = set (normalised_tags (metadata_before raw_document tagged_store))
   \<and> normalised_tags (metadata_before raw_document tagged_store)
       = [''Startup'', ''Ai'', ''Ycombinator'', ''Ai'']
   \<and> stored_unified_tags (enrich_post rev sample_mapping raw_document tagged_store)
       = Some [''Startup'', ''AI & Tech'']
   \<and> unified_tags_as_claimed sample_mapping (metadata_before raw_document tagged_store)
       = [''Startup'', ''AI & Tech'']"
proof -
  have t: "rp_text raw_document = Some (''Line1'' @ [newline] @ ''Line2'')"
    by (simp add: raw_document_def)
  have n: "normalised_tags (metadata_before raw_document tagged_store)
             = [''Startup'', ''Ai'', ''Ycombinator'', ''Ai'']"
    by code_simp
  have p: "set (rev (first_seen (normalised_tags (metadata_before raw_document tagged_store))))
             = set (normalised_tags (metadata_before raw_document tagged_store))"
    by (simp add: set_first_seen)
  have v: "unified_tags_in_set_order rev sample_mapping
             (metadata_before raw_document tagged_store) = [''Startup'', ''AI & Tech'']"
    by code_simp
  have c: "unified_tags_as_claimed sample_mapping (metadata_before raw_document tagged_store)
             = [''Startup'', ''AI & Tech'']"
    by code_simp
  have s: "stored_unified_tags (enrich_post rev sample_mapping raw_document tagged_store)
             = Some [''Startup'', ''AI & Tech'']"
    using unified_tags_of_enriched_post [of raw_document _ rev tagged_store sample_mapping] t p
    unfolding v by blast
  from t p n s c show ?thesis by blast
qed

text \<open>
  C3. Enrichment never changes the documents it is given. The copy of a post is shallow: it
  shares the metadata dictionary of the input post, and the three assignments write into that
  dictionary. After enriching a document whose metadata has a topic and one hashtag, the
  metadata of the input document holds \<open>line_count\<close>, \<open>language\<close> and \<open>unified_tags\<close>.
\<close>

theorem enrichment_mutates_input_metadata:
  "rp_metadata raw_document = Some 0
   \<and> dicts raw_store 0 =
       \<lparr>md_topic = Some ''Startup'', md_hashtags = Some [''#AI''], md_line_count = None,
        md_language = None, md_unified_tags = None, md_other = []\<rparr>
   \<and> fst (enrich_loop id [] [] [raw_document] raw_store) =
       Inr [raw_document\<lparr>rp_engagement := Some default_engagement_dict\<rparr>]
   \<and> dicts (snd (enrich_loop id [] [] [raw_document] raw_store)) 0 =
       \<lparr>md_topic = Some ''Startup'', md_hashtags = Some [''#AI''], md_line_count = Some 2,
        md_language = Some ''English'', md_unified_tags = Some [''Startup'', ''Ai''],
        md_other = []\<rparr>"
  by code_simp

end
